theory Spec2Isabelle
  imports Main
begin

unbundle bit_operations_syntax

section \<open>Strings and JavaScript values\<close>

text \<open>
  Embedding of \<^verbatim>\<open>src/sync-vehicles.js\<close>.  A JavaScript string is a \<^typ>\<open>string\<close>, one
  \<^typ>\<open>char\<close> per code unit; the type \<^typ>\<open>char\<close> has 256 values, so the strings of the model
  are those over U+0000..U+00FF, which covers every literal of the source (the tables and
  the manufacturer list use no character beyond Latin-1).
\<close>

definition isDigit :: "char \<Rightarrow> bool" where
  \<comment> \<open>the regular expression class \<^verbatim>\<open>\d\<close>\<close>
  "isDigit c = (c \<in> set ''0123456789'')"

definition isSpace :: "char \<Rightarrow> bool" where
  \<comment> \<open>\<^verbatim>\<open>\s\<close> and the characters removed by \<^verbatim>\<open>trim()\<close>: TAB, LF, VT, FF, CR, space, NBSP\<close>
  "isSpace c = (c \<in> set [CHR 0x09, CHR 0x0A, CHR 0x0B, CHR 0x0C, CHR 0x0D, CHR 0x20, CHR 0xA0])"

definition upperChars :: string where
  \<comment> \<open>A-Z and the Latin-1 capitals U+00C0..U+00DE (without the sign U+00D7)\<close>
  "upperChars = ''ABCDEFGHIJKLMNOPQRSTUVWXYZ'' @
     [CHR 0xC0, CHR 0xC1, CHR 0xC2, CHR 0xC3, CHR 0xC4, CHR 0xC5, CHR 0xC6, CHR 0xC7, CHR 0xC8, CHR 0xC9,
      CHR 0xCA, CHR 0xCB, CHR 0xCC, CHR 0xCD, CHR 0xCE, CHR 0xCF, CHR 0xD0, CHR 0xD1, CHR 0xD2, CHR 0xD3,
      CHR 0xD4, CHR 0xD5, CHR 0xD6, CHR 0xD8, CHR 0xD9, CHR 0xDA, CHR 0xDB, CHR 0xDC, CHR 0xDD, CHR 0xDE]"

definition lowerChars :: string where
  \<comment> \<open>their lower-case forms, 32 code points up\<close>
  "lowerChars = ''abcdefghijklmnopqrstuvwxyz'' @
     [CHR 0xE0, CHR 0xE1, CHR 0xE2, CHR 0xE3, CHR 0xE4, CHR 0xE5, CHR 0xE6, CHR 0xE7, CHR 0xE8, CHR 0xE9,
      CHR 0xEA, CHR 0xEB, CHR 0xEC, CHR 0xED, CHR 0xEE, CHR 0xEF, CHR 0xF0, CHR 0xF1, CHR 0xF2, CHR 0xF3,
      CHR 0xF4, CHR 0xF5, CHR 0xF6, CHR 0xF8, CHR 0xF9, CHR 0xFA, CHR 0xFB, CHR 0xFC, CHR 0xFD, CHR 0xFE]"

definition toLowerChar :: "char \<Rightarrow> char" where
  "toLowerChar c = (case map_of (zip upperChars lowerChars) c of Some l \<Rightarrow> l | None \<Rightarrow> c)"

definition toLowerCase :: "string \<Rightarrow> string" where
  "toLowerCase s = map toLowerChar s"

fun startsWith :: "string \<Rightarrow> string \<Rightarrow> bool" where
  "startsWith s [] = True"
| "startsWith [] (p # ps) = False"
| "startsWith (c # cs) (p # ps) = (c = p \<and> startsWith cs ps)"

fun includes_str :: "string \<Rightarrow> string \<Rightarrow> bool" where
  "includes_str [] sub = (sub = [])"
| "includes_str (c # cs) sub = (startsWith (c # cs) sub \<or> includes_str cs sub)"

definition trim :: "string \<Rightarrow> string" where
  "trim s = rev (dropWhile isSpace (rev (dropWhile isSpace s)))"

fun split_str :: "char \<Rightarrow> string \<Rightarrow> string list" where
  \<comment> \<open>\<^verbatim>\<open>s.split(sep)\<close> for a one-character separator; the result is never empty\<close>
  "split_str sep [] = [[]]"
| "split_str sep (c # cs) =
     (if c = sep then [] # split_str sep cs
      else (case split_str sep cs of [] \<Rightarrow> [[c]] | p # ps \<Rightarrow> (c # p) # ps))"

fun join_str :: "string \<Rightarrow> string list \<Rightarrow> string" where
  "join_str sep [] = []"
| "join_str sep [p] = p"
| "join_str sep (p # q # ps) = p @ sep @ join_str sep (q # ps)"

text \<open>
  The values that reach a template literal or a truthiness test: \<^verbatim>\<open>null\<close>,
  \<^verbatim>\<open>undefined\<close>, booleans, integral numbers and strings.
\<close>

datatype jsval = JNull | JUndefined | JBool bool | JNum int | JStr string

fun truthy :: "jsval \<Rightarrow> bool" where
  "truthy JNull = False"
| "truthy JUndefined = False"
| "truthy (JBool b) = b"
| "truthy (JNum n) = (n \<noteq> 0)"
| "truthy (JStr s) = (s \<noteq> [])"

definition digitChar :: "nat \<Rightarrow> char" where
  "digitChar d = ''0123456789'' ! (d mod 10)"

fun decimal :: "nat \<Rightarrow> string" where
  "decimal n = (if n < 10 then [digitChar n] else decimal (n div 10) @ [digitChar (n mod 10)])"

declare decimal.simps [simp del]

fun toString :: "jsval \<Rightarrow> string" where
  \<comment> \<open>the conversion a template literal applies to \<^verbatim>\<open>${v}\<close>\<close>
  "toString JNull = ''null''"
| "toString JUndefined = ''undefined''"
| "toString (JBool b) = (if b then ''true'' else ''false'')"
| "toString (JNum n) = (if n < 0 then CHR ''-'' # decimal (nat (- n)) else decimal (nat n))"
| "toString (JStr s) = s"

definition orElse :: "jsval \<Rightarrow> jsval \<Rightarrow> jsval" where
  \<comment> \<open>\<^verbatim>\<open>a || b\<close>\<close>
  "orElse a b = (if truthy a then a else b)"

section \<open>MD5 (\<^verbatim>\<open>crypto.createHash('md5')\<close>)\<close>

text \<open>
  The digest of Node's \<^verbatim>\<open>crypto\<close> module is RFC 1321.  Words are 32-bit, held as
  \<^typ>\<open>nat\<close> with the reduction modulo \<open>2 ^ 32\<close> written out; bytes are \<^typ>\<open>nat\<close>
  below 256.
\<close>

definition add32 :: "nat \<Rightarrow> nat \<Rightarrow> nat" where
  "add32 x y = (x + y) mod 2 ^ 32"

definition not32 :: "nat \<Rightarrow> nat" where
  "not32 x = 4294967295 - x mod 2 ^ 32"

definition rotl32 :: "nat \<Rightarrow> nat \<Rightarrow> nat" where
  "rotl32 x n = (push_bit n x mod 2 ^ 32) OR drop_bit (32 - n) x"

definition md5_F :: "nat \<Rightarrow> nat \<Rightarrow> nat \<Rightarrow> nat" where
  "md5_F x y z = (x AND y) OR (not32 x AND z)"

definition md5_G :: "nat \<Rightarrow> nat \<Rightarrow> nat \<Rightarrow> nat" where
  "md5_G x y z = (x AND z) OR (y AND not32 z)"

definition md5_H :: "nat \<Rightarrow> nat \<Rightarrow> nat \<Rightarrow> nat" where
  "md5_H x y z = x XOR y XOR z"

definition md5_I :: "nat \<Rightarrow> nat \<Rightarrow> nat \<Rightarrow> nat" where
  "md5_I x y z = y XOR (x OR not32 z)"

text \<open>Each step is (index of the message word, rotation, additive constant).\<close>

definition md5_round1 :: "(nat \<times> nat \<times> nat) list" where
  "md5_round1 =
    [(0, 7, 0xd76aa478), (1, 12, 0xe8c7b756), (2, 17, 0x242070db), (3, 22, 0xc1bdceee),
     (4, 7, 0xf57c0faf), (5, 12, 0x4787c62a), (6, 17, 0xa8304613), (7, 22, 0xfd469501),
     (8, 7, 0x698098d8), (9, 12, 0x8b44f7af), (10, 17, 0xffff5bb1), (11, 22, 0x895cd7be),
     (12, 7, 0x6b901122), (13, 12, 0xfd987193), (14, 17, 0xa679438e), (15, 22, 0x49b40821)]"

definition md5_round2 :: "(nat \<times> nat \<times> nat) list" where
  "md5_round2 =
    [(1, 5, 0xf61e2562), (6, 9, 0xc040b340), (11, 14, 0x265e5a51), (0, 20, 0xe9b6c7aa),
     (5, 5, 0xd62f105d), (10, 9, 0x02441453), (15, 14, 0xd8a1e681), (4, 20, 0xe7d3fbc8),
     (9, 5, 0x21e1cde6), (14, 9, 0xc33707d6), (3, 14, 0xf4d50d87), (8, 20, 0x455a14ed),
     (13, 5, 0xa9e3e905), (2, 9, 0xfcefa3f8), (7, 14, 0x676f02d9), (12, 20, 0x8d2a4c8a)]"

definition md5_round3 :: "(nat \<times> nat \<times> nat) list" where
  "md5_round3 =
    [(5, 4, 0xfffa3942), (8, 11, 0x8771f681), (11, 16, 0x6d9d6122), (14, 23, 0xfde5380c),
     (1, 4, 0xa4beea44), (4, 11, 0x4bdecfa9), (7, 16, 0xf6bb4b60), (10, 23, 0xbebfbc70),
     (13, 4, 0x289b7ec6), (0, 11, 0xeaa127fa), (3, 16, 0xd4ef3085), (6, 23, 0x04881d05),
     (9, 4, 0xd9d4d039), (12, 11, 0xe6db99e5), (15, 16, 0x1fa27cf8), (2, 23, 0xc4ac5665)]"

definition md5_round4 :: "(nat \<times> nat \<times> nat) list" where
  "md5_round4 =
    [(0, 6, 0xf4292244), (7, 10, 0x432aff97), (14, 15, 0xab9423a7), (5, 21, 0xfc93a039),
     (12, 6, 0x655b59c3), (3, 10, 0x8f0ccc92), (10, 15, 0xffeff47d), (1, 21, 0x85845dd1),
     (8, 6, 0x6fa87e4f), (15, 10, 0xfe2ce6e0), (6, 15, 0xa3014314), (13, 21, 0x4e0811a1),
     (4, 6, 0xf7537e82), (11, 10, 0xbd3af235), (2, 15, 0x2ad7d2bb), (9, 21, 0xeb86d391)]"

type_synonym md5_state = "nat \<times> nat \<times> nat \<times> nat"

fun md5_op :: "(nat \<Rightarrow> nat \<Rightarrow> nat \<Rightarrow> nat) \<Rightarrow> nat list \<Rightarrow> md5_state \<Rightarrow> nat \<times> nat \<times> nat \<Rightarrow> md5_state" where
  "md5_op f m (a, b, c, d) (g, s, k) =
     (d, add32 b (rotl32 (add32 (add32 (add32 a (f b c d)) (m ! g)) k) s), b, c)"

definition md5_rounds :: "nat list \<Rightarrow> md5_state \<Rightarrow> md5_state" where
  "md5_rounds m st =
     foldl (md5_op md5_I m) (foldl (md5_op md5_H m) (foldl (md5_op md5_G m)
       (foldl (md5_op md5_F m) st md5_round1) md5_round2) md5_round3) md5_round4"

fun md5_block :: "md5_state \<Rightarrow> nat list \<Rightarrow> md5_state" where
  "md5_block (a0, b0, c0, d0) m =
     (case md5_rounds m (a0, b0, c0, d0) of
        (a, b, c, d) \<Rightarrow> (add32 a0 a, add32 b0 b, add32 c0 c, add32 d0 d))"

definition le_bytes :: "nat list \<Rightarrow> nat \<Rightarrow> nat list" where
  \<comment> \<open>the bytes of \<open>n\<close> at the positions \<open>ks\<close>, least significant first\<close>
  "le_bytes ks n = map (\<lambda>k. (n div 256 ^ k) mod 256) ks"

definition le_word :: "nat list \<Rightarrow> nat" where
  "le_word bs = foldr (\<lambda>b w. b + 256 * w) bs 0"

fun chunks :: "nat \<Rightarrow> 'a list \<Rightarrow> 'a list list" where
  "chunks n [] = []"
| "chunks n (x # xs) =
     (if n = 0 then [x # xs] else take n (x # xs) # chunks n (drop n (x # xs)))"

definition md5_pad :: "nat list \<Rightarrow> nat list" where
  "md5_pad msg =
     msg @ [128] @ replicate ((119 - length msg mod 64) mod 64) 0
         @ le_bytes [0, 1, 2, 3, 4, 5, 6, 7] ((8 * length msg) mod 2 ^ 64)"

definition md5_init :: md5_state where
  "md5_init = (0x67452301, 0xefcdab89, 0x98badcfe, 0x10325476)"

definition md5 :: "nat list \<Rightarrow> nat list" where
  "md5 msg =
     (case foldl md5_block md5_init (map (\<lambda>blk. map le_word (chunks 4 blk)) (chunks 64 (md5_pad msg)))
      of (a, b, c, d) \<Rightarrow> concat (map (le_bytes [0, 1, 2, 3]) [a, b, c, d]))"

definition hexDigit :: "nat \<Rightarrow> char" where
  "hexDigit d = ''0123456789abcdef'' ! (d mod 16)"

definition hex :: "nat list \<Rightarrow> string" where
  \<comment> \<open>\<^verbatim>\<open>digest('hex')\<close>\<close>
  "hex bs = concat (map (\<lambda>b. [hexDigit (b div 16), hexDigit b]) bs)"

definition utf8 :: "string \<Rightarrow> nat list" where
  \<comment> \<open>\<^verbatim>\<open>update(str)\<close> hashes the UTF-8 encoding; code units below U+0100 take one or two bytes\<close>
  "utf8 s = concat (map (\<lambda>c. let n = of_char c :: nat
                                in if n < 128 then [n] else [192 + n div 64, 128 + n mod 64]) s)"

section \<open>Translation maps\<close>

definition fuelTypeMap :: "(string \<times> string) list" where
  "fuelTypeMap =
     [(''Benzin'', ''PETROL''),
      (''Diesel'', ''DIESEL''),
      (''Elektro'', ''ELECTRIC''),
      (''Hybrid'', ''HYBRID''),
      (''Hybrid (Benzin)'', ''HYBRID_PETROL''),
      (''Hybrid (Benzin/Elektro)'', ''HYBRID_PETROL''),
      (''Hybrid (Diesel)'', ''HYBRID_DIESEL''),
      (''Plug-in-Hybrid'', ''PLUGIN_HYBRID''),
      (''LPG'', ''LPG''),
      (''CNG'', ''CNG''),
      (''Erdgas'', ''CNG''),
      (''Wasserstoff'', ''HYDROGEN'')]"

definition gearboxMap :: "(string \<times> string) list" where
  "gearboxMap =
     [(''Automatik'', ''AUTOMATIC''),
      (''Schaltgetriebe'', ''MANUAL''),
      (''Schaltung'', ''MANUAL''),
      (''Halbautomatik'', ''SEMI_AUTOMATIC'')]"

definition bodyTypeMap :: "(string \<times> string) list" where
  "bodyTypeMap =
     [(''Limousine'', ''SEDAN''),
      (''Kombi'', ''WAGON''),
      (''SUV'', ''SUV''),
      (''Gel'' @ [CHR 0xE4] @ ''ndewagen'', ''SUV''),
      (''Coup'' @ [CHR 0xE9], ''COUPE''),
      (''Coupe'', ''COUPE''),
      (''Sportwagen/Coup'' @ [CHR 0xE9], ''SPORTS_COUPE''),
      (''Sportwagen'', ''SPORTS''),
      (''Cabrio'', ''CONVERTIBLE''),
      (''Cabriolet'', ''CONVERTIBLE''),
      (''Roadster'', ''ROADSTER''),
      (''Kleinwagen'', ''COMPACT''),
      (''Van'', ''VAN''),
      (''Van/Minibus'', ''MPV''),
      (''Pickup'', ''PICKUP''),
      (''Andere'', ''OTHER'')]"

definition driveTypeMap :: "(string \<times> string) list" where
  "driveTypeMap =
     [(''Verbrennungsmotor'', ''ICE''),
      (''Elektro'', ''ELECTRIC''),
      (''Elektroantrieb'', ''ELECTRIC''),
      (''Hybrid'', ''HYBRID''),
      (''Hybridantrieb'', ''HYBRID''),
      (''Plug-in-Hybrid'', ''PLUGIN_HYBRID'')]"

definition climateMap :: "(string \<times> string) list" where
  "climateMap =
     [(''Klimaanlage'', ''AUTOMATIC''),
      (''Klimaautomatik'', ''AUTOMATIC''),
      (''2-Zonen-Klimaautomatik'', ''TWO_ZONE''),
      (''3-Zonen-Klimaautomatik'', ''THREE_ZONE''),
      (''4-Zonen-Klimaautomatik'', ''FOUR_ZONE''),
      (''Manuelle Klimaanlage'', ''MANUAL'')]"

definition colorMap :: "(string \<times> string) list" where
  "colorMap =
     [(''Wei'' @ [CHR 0xDF], ''WHITE''),
      (''Schwarz'', ''BLACK''),
      (''Silber'', ''SILVER''),
      (''Grau'', ''GRAY''),
      (''Rot'', ''RED''),
      (''Blau'', ''BLUE''),
      (''Gr'' @ [CHR 0xFC] @ ''n'', ''GREEN''),
      (''Braun'', ''BROWN''),
      (''Beige'', ''BEIGE''),
      (''Gold'', ''GOLD''),
      (''Orange'', ''ORANGE''),
      (''Gelb'', ''YELLOW''),
      (''Violett'', ''PURPLE''),
      (''Bronze'', ''BRONZE''),
      (''Anthrazit'', ''ANTHRACITE'')]"

definition interiorMaterialMap :: "(string \<times> string) list" where
  "interiorMaterialMap =
     [(''Leder'', ''LEATHER''),
      (''Vollleder'', ''FULL_LEATHER''),
      (''Teilleder'', ''PARTIAL_LEATHER''),
      (''Stoff'', ''FABRIC''),
      (''Alcantara'', ''ALCANTARA''),
      (''Velours'', ''VELOUR'')]"

section \<open>Helper functions\<close>

definition generateFingerprint :: "jsval \<Rightarrow> jsval \<Rightarrow> jsval \<Rightarrow> jsval \<Rightarrow> string" where
  "generateFingerprint make model mileage firstRegistration =
     (let str = toString (orElse make (JStr [])) @ ''|'' @ toString (orElse model (JStr [])) @ ''|''
                @ toString (orElse mileage (JStr [])) @ ''|''
                @ toString (orElse firstRegistration (JStr []))
      in hex (md5 (utf8 str)))"

definition isSlugChar :: "char \<Rightarrow> bool" where
  \<comment> \<open>the class \<^verbatim>\<open>[a-z0-9]\<close>\<close>
  "isSlugChar c = (c \<in> set ''abcdefghijklmnopqrstuvwxyz0123456789'')"

fun hyphenate :: "bool \<Rightarrow> string \<Rightarrow> string" where
  \<comment> \<open>\<^verbatim>\<open>s.replace(/[^a-z0-9]+/g, '-')\<close>; the flag says that a run of other characters
      is being replaced\<close>
  "hyphenate inRun [] = []"
| "hyphenate inRun (c # cs) =
     (if isSlugChar c then c # hyphenate False cs
      else if inRun then hyphenate True cs
      else CHR ''-'' # hyphenate True cs)"

definition stripEdgeHyphens :: "string \<Rightarrow> string" where
  \<comment> \<open>\<^verbatim>\<open>s.replace(/^-|-$/g, '')\<close>\<close>
  "stripEdgeHyphens s =
     (let s1 = (if startsWith s ''-'' then drop 1 s else s)
      in if s1 \<noteq> [] \<and> last s1 = CHR ''-'' then butlast s1 else s1)"

definition generateSlug :: "jsval \<Rightarrow> jsval \<Rightarrow> jsval \<Rightarrow> string \<Rightarrow> string" where
  \<comment> \<open>\<open>random\<close> is the value of \<^verbatim>\<open>crypto.randomBytes(4).toString('hex')\<close>\<close>
  "generateSlug make model year random =
     (let base = stripEdgeHyphens (hyphenate False (toLowerCase
                   (toString make @ ''-'' @ toString model @ ''-''
                    @ toString (orElse year (JStr ''unknown'')))))
      in base @ ''-'' @ random)"

text \<open>
  A translation table is an object literal with string values.  It is held as the list
  \<^verbatim>\<open>Object.entries(map)\<close>, in iteration order, with distinct keys.  The property
  read \<^verbatim>\<open>map[value]\<close> finds an own property, else a member that every object literal
  inherits from \<^verbatim>\<open>Object.prototype\<close>, else \<^verbatim>\<open>undefined\<close>.
\<close>

type_synonym table = "(string \<times> string) list"

definition objectPrototypeKeys :: "string list" where
  "objectPrototypeKeys =
     [''constructor'', ''__defineGetter__'', ''__defineSetter__'', ''hasOwnProperty'',
      ''__lookupGetter__'', ''__lookupSetter__'', ''isPrototypeOf'', ''propertyIsEnumerable'',
      ''toString'', ''valueOf'', ''__proto__'', ''toLocaleString'']"

datatype property = Own string | Inherited string | Undefined

definition getProp :: "table \<Rightarrow> string \<Rightarrow> property" where
  "getProp m k =
     (case map_of m k of
        Some v \<Rightarrow> Own v
      | None \<Rightarrow> if k \<in> set objectPrototypeKeys then Inherited k else Undefined)"

text \<open>
  What \<^verbatim>\<open>normalizeValue\<close> returns: \<^verbatim>\<open>null\<close>, a string of the table, or the inherited
  member (a function or object, named here by its property key).
\<close>

datatype nval = NNull | NStr string | NProto string

fun nvalTruthy :: "nval \<Rightarrow> bool" where
  "nvalTruthy NNull = False"
| "nvalTruthy (NStr s) = (s \<noteq> [])"
| "nvalTruthy (NProto k) = True"

fun firstEntry :: "(string \<Rightarrow> bool) \<Rightarrow> table \<Rightarrow> string option" where
  \<comment> \<open>\<^verbatim>\<open>for (const [key, val] of Object.entries(map)) if (P key) return val\<close>\<close>
  "firstEntry P [] = None"
| "firstEntry P ((key, val) # es) = (if P key then Some val else firstEntry P es)"

definition normalizeValue :: "string option \<Rightarrow> table \<Rightarrow> nval" where
  "normalizeValue value m =
     (case value of
        None \<Rightarrow> NNull
      | Some v \<Rightarrow>
          if v = [] then NNull
          else (case (case getProp m v of
                        Own x \<Rightarrow> if x \<noteq> [] then Some (NStr x) else None
                      | Inherited k \<Rightarrow> Some (NProto k)
                      | Undefined \<Rightarrow> None) of
                  Some r \<Rightarrow> r
                | None \<Rightarrow>
                    let lower = toLowerCase v
                    in (case firstEntry (\<lambda>key. toLowerCase key = lower) m of
                          Some val \<Rightarrow> NStr val
                        | None \<Rightarrow>
                            (case firstEntry (\<lambda>key. includes_str (toLowerCase v) (toLowerCase key)) m of
                               Some val \<Rightarrow> NStr val
                             | None \<Rightarrow> NNull))))"

fun removeMetallic :: "string \<Rightarrow> string" where
  \<comment> \<open>\<^verbatim>\<open>s.replace(/\s*metallic\s*/i, '')\<close>: the leftmost match is removed\<close>
  "removeMetallic [] = []"
| "removeMetallic (c # cs) =
     (let rest = dropWhile isSpace (c # cs)
      in if startsWith (toLowerCase rest) ''metallic'' then dropWhile isSpace (drop 8 rest)
         else c # removeMetallic cs)"

definition parseColor :: "string option \<Rightarrow> nval \<times> bool" where
  "parseColor colorString =
     (case colorString of
        None \<Rightarrow> (NNull, False)
      | Some s \<Rightarrow>
          if s = [] then (NNull, False)
          else let metallic = includes_str (toLowerCase s) ''metallic'';
                   colorOnly = trim (removeMetallic s)
               in (normalizeValue (Some colorOnly) colorMap, metallic))"

fun interiorLoop :: "string list \<Rightarrow> nval \<Rightarrow> nval \<Rightarrow> nval \<times> nval" where
  "interiorLoop [] material color = (material, color)"
| "interiorLoop (part # parts) material color =
     interiorLoop parts
       (if \<not> nvalTruthy material then normalizeValue (Some part) interiorMaterialMap else material)
       (if \<not> nvalTruthy color then normalizeValue (Some part) colorMap else color)"

definition parseInterior :: "string option \<Rightarrow> nval \<times> nval" where
  "parseInterior interiorString =
     (case interiorString of
        None \<Rightarrow> (NNull, NNull)
      | Some s \<Rightarrow>
          if s = [] then (NNull, NNull)
          else interiorLoop (map trim (split_str (CHR '','') s)) NNull NNull)"

definition parseInt :: "string \<Rightarrow> nat option" where
  \<comment> \<open>\<^verbatim>\<open>parseInt(s, 10)\<close> on a string of digits; \<^verbatim>\<open>NaN\<close> (here \<open>None\<close>) when it is empty.
      The numbers of the source are doubles: the value is exact below \<open>2 ^ 53\<close>\<close>
  "parseInt ds =
     (if ds = [] then None
      else Some (foldl (\<lambda>n c. 10 * n + (of_char c - 48)) 0 ds))"

definition parseNumeric :: "string option \<Rightarrow> nat option" where
  "parseNumeric value =
     (case value of
        None \<Rightarrow> None
      | Some v \<Rightarrow> if v = [] then None else parseInt (filter isDigit v))"

fun matchUnit :: "string \<Rightarrow> string \<Rightarrow> string option" where
  \<comment> \<open>first group of the leftmost match of \<^verbatim>\<open>/(\d+)\s*unit/\<close>\<close>
  "matchUnit unit [] = None"
| "matchUnit unit (c # cs) =
     (let ds = takeWhile isDigit (c # cs);
          rest = dropWhile isSpace (dropWhile isDigit (c # cs))
      in if ds \<noteq> [] \<and> startsWith rest unit then Some ds else matchUnit unit cs)"

definition parsePower :: "string option \<Rightarrow> nat option \<times> nat option" where
  "parsePower powerString =
     (case powerString of
        None \<Rightarrow> (None, None)
      | Some s \<Rightarrow>
          if s = [] then (None, None)
          else ((case matchUnit ''kW'' s of Some ds \<Rightarrow> parseInt ds | None \<Rightarrow> None),
                (case matchUnit ''PS'' s of Some ds \<Rightarrow> parseInt ds | None \<Rightarrow> None)))"

definition monthYearAt :: "string \<Rightarrow> (string \<times> string) option" where
  \<comment> \<open>\<^verbatim>\<open>/(\d{2})\/(\d{4})/\<close> tried at the start of \<open>s\<close>: its two groups\<close>
  "monthYearAt s =
     (let mm = take 2 s; yyyy = take 4 (drop 3 s)
      in if length mm = 2 \<and> list_all isDigit mm \<and> take 1 (drop 2 s) = ''/''
            \<and> length yyyy = 4 \<and> list_all isDigit yyyy
         then Some (mm, yyyy) else None)"

fun matchRegistration :: "string \<Rightarrow> (string \<times> string) option" where
  \<comment> \<open>\<^verbatim>\<open>regString.match(/(\d{2})\/(\d{4})/)\<close>: the search runs from the left and is not
      anchored\<close>
  "matchRegistration [] = None"
| "matchRegistration (c # cs) =
     (case monthYearAt (c # cs) of
        Some groups \<Rightarrow> Some groups
      | None \<Rightarrow> matchRegistration cs)"

definition parseRegistration :: "string option \<Rightarrow> string option" where
  "parseRegistration regString =
     (case regString of
        None \<Rightarrow> None
      | Some s \<Rightarrow>
          if s = [] then None
          else (case matchRegistration s of
                  Some (mm, yyyy) \<Rightarrow> Some (yyyy @ mm)
                | None \<Rightarrow> Some s))"

definition knownMakes :: "string list" where
  "knownMakes =
     [''Mercedes-Benz'', ''BMW'', ''Audi'', ''Volkswagen'', ''Porsche'', ''Ford'', ''Opel'',
      ''Toyota'', ''Honda'', ''Mazda'', ''Nissan'', ''Hyundai'', ''Kia'', ''Volvo'', ''Skoda'',
      ''Seat'', ''Renault'', ''Peugeot'', ''Citro'' @ [CHR 0xEB] @ ''n'', ''Fiat'', ''Alfa Romeo'',
      ''Jaguar'', ''Land Rover'', ''Range Rover'', ''Mini'', ''Tesla'', ''Lexus'', ''Infiniti'']"

definition parseMakeModel :: "string option \<Rightarrow> string option \<times> string option" where
  "parseMakeModel title =
     (case title of
        None \<Rightarrow> (None, None)
      | Some t \<Rightarrow>
          if t = [] then (None, None)
          else (case find (startsWith t) knownMakes of
                  Some make \<Rightarrow> (Some make, Some (trim (drop (length make) t)))
                | None \<Rightarrow>
                    (case split_str (CHR '' '') t of
                       [] \<Rightarrow> (None, Some [])
                     | p # ps \<Rightarrow> (Some p, Some (join_str '' '' ps)))))"

section \<open>Sync log and run state\<close>

datatype errorEntry =
    InsertError string string  \<comment> \<open>\<^verbatim>\<open>{ type: 'insert', error, listing }\<close>\<close>
  | ScrapeError string string  \<comment> \<open>\<^verbatim>\<open>{ type: 'scrape', url, error }\<close>\<close>
  | DealerError string string  \<comment> \<open>\<^verbatim>\<open>{ type: 'dealer', url, error }\<close>\<close>

record syncLog =
  dealers :: "(string \<times> string) list"
  listingsFound :: nat
  listingsNew :: nat
  listingsSkipped :: nat
  imagesUploaded :: nat
  errors :: "errorEntry list"

text \<open>
  The state threaded through the run is the global \<^verbatim>\<open>syncLog\<close> (without its two time
  stamps) and, to speak about which images are attempted, the list of the calls of
  \<^verbatim>\<open>processAndUploadImage\<close> made so far: image URL, slug and index.
\<close>

record state = syncLog +
  imageCalls :: "(string \<times> string \<times> nat) list"

definition initialState :: state where
  "initialState =
     \<lparr>dealers = [], listingsFound = 0, listingsNew = 0, listingsSkipped = 0,
      imagesUploaded = 0, errors = [], imageCalls = []\<rparr>"

section \<open>What the browser and the services deliver\<close>

text \<open>
  \<^verbatim>\<open>rawData\<close> is the object built inside \<^verbatim>\<open>page.evaluate\<close>.  \<^verbatim>\<open>findValue\<close> yields
  a string, empty when the label is missing; \<^verbatim>\<open>price\<close> and \<^verbatim>\<open>subtitle\<close> are only
  assigned when found, and \<^verbatim>\<open>condition\<close> is read through \<^verbatim>\<open>?.\<close>, so these three are
  optional (\<open>None\<close> is \<^verbatim>\<open>undefined\<close>).
\<close>

record rawData =
  raw_title :: string
  raw_price :: "string option"
  raw_mileage :: string
  raw_power :: string
  raw_fuelType :: string
  raw_transmission :: string
  raw_firstRegistration :: string
  raw_owners :: string
  raw_condition :: "string option"
  raw_bodyType :: string
  raw_series :: string
  raw_variant :: string
  raw_hubraum :: string
  raw_driveType :: string
  raw_seats :: string
  raw_doors :: string
  raw_emissionClass :: string
  raw_emissionSticker :: string
  raw_hu :: string
  raw_climate :: string
  raw_parkingAssist :: string
  raw_airbags :: string
  raw_colorManufacturer :: string
  raw_color :: string
  raw_interior :: string
  raw_weight :: string
  raw_cylinders :: string
  raw_tankSize :: string
  raw_subtitle :: "string option"
  raw_features :: "string list"
  raw_images :: "string list"

text \<open>
  A candidate is a listing URL of the search page together with what loading it yields:
  the message of the error thrown by \<^verbatim>\<open>page.goto\<close> or \<^verbatim>\<open>page.evaluate\<close>, or the raw
  data; and the bytes \<^verbatim>\<open>crypto.randomBytes\<close> hands to \<^verbatim>\<open>generateSlug\<close>, in hex.
\<close>

record candidate =
  cand_url :: string
  cand_page :: "string + rawData"
  cand_random :: string

text \<open>
  \<^verbatim>\<open>processAndUploadImage(page, imageUrl, slug, index, config)\<close> throws (navigation,
  screenshot or encoding failed), or returns what \<^verbatim>\<open>uploadImage\<close> returns: \<^verbatim>\<open>null\<close>
  after an upload error, else the public URL.
\<close>

datatype imageResult = Threw string | Returned "string option"

type_synonym imagePipeline = "string \<Rightarrow> string \<Rightarrow> nat \<Rightarrow> imageResult"

record dealer =
  dealer_name :: string
  dealer_url :: string
  dealer_search :: "string + candidate list"
    \<comment> \<open>the search page: the message of the error thrown while it is loaded or read, or
        the listing URLs found on it (one per listing id)\<close>

record settings =
  enabled :: bool
  maxListingsPerDealer :: nat
  maxTotalListings :: nat
  imageWidth :: nat
  imageHeight :: nat

section \<open>Scraping functions\<close>

text \<open>
  The pauses between requests are left out, and so is a browser that cannot be started or
  cannot open a page at all (\<^verbatim>\<open>puppeteer.launch\<close>, \<^verbatim>\<open>browser.newPage\<close>): that ends the
  process before the loops below run.
\<close>

record listing =
  slug :: string
  fingerprint :: string
  make_field :: "string option"  \<comment> \<open>the field \<^verbatim>\<open>make\<close>\<close>
  model :: "string option"
  model_description :: "string option"
  subtitle :: "string option"
  series :: "string option"
  variant :: "string option"
  price :: "nat option"
  currency :: string
  price_type :: string
  mileage :: "nat option"
  first_registration :: "string option"
  fuel :: nval
  gearbox :: nval
  power_kw :: "nat option"
  power_ps :: "nat option"
  cubic_capacity :: "nat option"
  cylinders :: "nat option"
  body_type :: nval
  drive_type :: nval
  num_doors :: "nat option"
  num_seats :: "nat option"
  exterior_color :: nval
  exterior_color_manufacturer :: "string option"
  metallic :: bool
  interior_color :: nval
  interior_material :: nval
  climate :: nval
  airbags :: "string option"
  emission_class :: "string option"
  emission_sticker :: "string option"
  hu_valid_until :: "string option"
  num_previous_owners :: "nat option"
  accident_damaged :: jsval
  condition :: jsval
  tank_size :: "nat option"
  weight :: "nat option"
  features :: "string list"
  images :: "string list"
  source_url :: string
  source :: string
  sync_source :: string
  published :: bool
  featured :: bool

definition strVal :: "string option \<Rightarrow> jsval" where
  "strVal x = (case x of None \<Rightarrow> JNull | Some s \<Rightarrow> JStr s)"

definition numVal :: "nat option \<Rightarrow> jsval" where
  "numVal x = (case x of None \<Rightarrow> JNull | Some n \<Rightarrow> JNum (int n))"

definition orNull :: "string option \<Rightarrow> string option" where
  \<comment> \<open>\<^verbatim>\<open>x || null\<close> on a string or \<^verbatim>\<open>undefined\<close>\<close>
  "orNull x = (case x of None \<Rightarrow> None | Some s \<Rightarrow> if s = [] then None else Some s)"

fun imageLoop :: "imagePipeline \<Rightarrow> string \<Rightarrow> nat \<Rightarrow> string list \<Rightarrow> string list \<Rightarrow> state
                  \<Rightarrow> string list \<times> state" where
  \<comment> \<open>\<^verbatim>\<open>for (let i = 0; i < maxImages; i++)\<close>, from index \<open>i\<close> on, over the images still to do\<close>
  "imageLoop img listingSlug i [] imageUrls st = (imageUrls, st)"
| "imageLoop img listingSlug i (imageUrl # rest) imageUrls st =
     (let st1 = st\<lparr>imageCalls := imageCalls st @ [(imageUrl, listingSlug, i)]\<rparr>
      in case img imageUrl listingSlug i of
           Returned (Some uploadedUrl) \<Rightarrow>
             if uploadedUrl \<noteq> []
             then imageLoop img listingSlug (i + 1) rest (imageUrls @ [uploadedUrl])
                    (st1\<lparr>imagesUploaded := imagesUploaded st1 + 1\<rparr>)
             else imageLoop img listingSlug (i + 1) rest imageUrls st1
         | Returned None \<Rightarrow> imageLoop img listingSlug (i + 1) rest imageUrls st1
         | Threw err \<Rightarrow> imageLoop img listingSlug (i + 1) rest imageUrls st1)"

datatype scraped = Skipped string | Scraped listing

definition conditionIncludes :: "string option \<Rightarrow> string \<Rightarrow> bool" where
  \<comment> \<open>truthiness of \<^verbatim>\<open>rawData.condition?.toLowerCase().includes(word)\<close>\<close>
  "conditionIncludes c word =
     (case c of None \<Rightarrow> False | Some s \<Rightarrow> includes_str (toLowerCase s) word)"

definition scrapeListingDetails :: "imagePipeline \<Rightarrow> candidate \<Rightarrow> string set \<Rightarrow> state
                                     \<Rightarrow> (string + scraped) \<times> state" where
  "scrapeListingDetails img c existingFingerprints st =
     (case cand_page c of
        Inl err \<Rightarrow> (Inl err, st)
      | Inr rawData \<Rightarrow>
          (case parseMakeModel (Some (raw_title rawData)) of (mk, mdl) \<Rightarrow>
           let firstRegistration = parseRegistration (Some (raw_firstRegistration rawData));
               mlg = parseNumeric (Some (raw_mileage rawData));
               fp = generateFingerprint (strVal mk) (strVal mdl) (numVal mlg) (strVal firstRegistration)
           in if fp \<in> existingFingerprints
              then (Inr (Skipped (raw_title rawData)), st)
              else (case parseColor (Some (raw_color rawData)) of (color, metal) \<Rightarrow>
                    case parseInterior (Some (raw_interior rawData)) of (interiorMaterial, interiorColor) \<Rightarrow>
                    case parsePower (Some (raw_power rawData)) of (powerKw, powerPs) \<Rightarrow>
                    let year = (case firstRegistration of
                                  None \<Rightarrow> JNull
                                | Some reg \<Rightarrow> if reg = [] then JNull else JStr (take 4 reg));
                        slg = generateSlug (strVal mk) (strVal mdl) year (cand_random c);
                        maxImages = min (length (raw_images rawData)) 10
                    in (case imageLoop img slg 0 (take maxImages (raw_images rawData)) [] st of
                          (imageUrls, st1) \<Rightarrow>
                            (Inr (Scraped
                               \<lparr>slug = slg,
                                fingerprint = fp,
                                make_field = mk,
                                model = mdl,
                                model_description = orNull (raw_subtitle rawData),
                                subtitle = orNull (raw_subtitle rawData),
                                series = orNull (Some (raw_series rawData)),
                                variant = orNull (Some (raw_variant rawData)),
                                price = parseNumeric (raw_price rawData),
                                currency = ''EUR'',
                                price_type = ''FIXED'',
                                mileage = mlg,
                                first_registration = firstRegistration,
                                fuel = normalizeValue (Some (raw_fuelType rawData)) fuelTypeMap,
                                gearbox = normalizeValue (Some (raw_transmission rawData)) gearboxMap,
                                power_kw = powerKw,
                                power_ps = powerPs,
                                cubic_capacity = parseNumeric (Some (raw_hubraum rawData)),
                                cylinders = parseNumeric (Some (raw_cylinders rawData)),
                                body_type = normalizeValue (Some (raw_bodyType rawData)) bodyTypeMap,
                                drive_type = normalizeValue (Some (raw_driveType rawData)) driveTypeMap,
                                num_doors = parseNumeric (Some (raw_doors rawData)),
                                num_seats = parseNumeric (Some (raw_seats rawData)),
                                exterior_color = color,
                                exterior_color_manufacturer = orNull (Some (raw_colorManufacturer rawData)),
                                metallic = metal,
                                interior_color = interiorColor,
                                interior_material = interiorMaterial,
                                climate = normalizeValue (Some (raw_climate rawData)) climateMap,
                                airbags = orNull (Some (raw_airbags rawData)),
                                emission_class = orNull (Some (raw_emissionClass rawData)),
                                emission_sticker = orNull (Some (raw_emissionSticker rawData)),
                                hu_valid_until = orNull (Some (raw_hu rawData)),
                                num_previous_owners = parseNumeric (Some (raw_owners rawData)),
                                accident_damaged =
                                  (if conditionIncludes (raw_condition rawData) ''unfallfrei''
                                   then JBool False else JNull),
                                condition =
                                  (if conditionIncludes (raw_condition rawData) ''neuwagen''
                                   then JStr ''NEW'' else JStr ''USED''),
                                tank_size = parseNumeric (Some (raw_tankSize rawData)),
                                weight = parseNumeric (Some (raw_weight rawData)),
                                features = raw_features rawData,
                                images = imageUrls,
                                source_url = cand_url c,
                                source = ''github_actions'',
                                sync_source = ''github_actions'',
                                published = True,
                                featured = False\<rparr>), st1)))))"

definition candidateFingerprint :: "rawData \<Rightarrow> string" where
  \<comment> \<open>the fingerprint that \<^verbatim>\<open>scrapeListingDetails\<close> computes from the raw data, before
      the test against the known set\<close>
  "candidateFingerprint rawData =
     (case parseMakeModel (Some (raw_title rawData)) of (mk, mdl) \<Rightarrow>
        generateFingerprint (strVal mk) (strVal mdl)
          (numVal (parseNumeric (Some (raw_mileage rawData))))
          (strVal (parseRegistration (Some (raw_firstRegistration rawData)))))"

fun listingLoop :: "imagePipeline \<Rightarrow> string set \<Rightarrow> candidate list \<Rightarrow> listing list \<Rightarrow> state
                    \<Rightarrow> listing list \<times> state" where
  \<comment> \<open>the loop of \<^verbatim>\<open>scrapeDealer\<close> over \<^verbatim>\<open>limitedUrls\<close>, with its \<^verbatim>\<open>try\<close>/\<^verbatim>\<open>catch\<close>\<close>
  "listingLoop img existingFingerprints [] listings st = (listings, st)"
| "listingLoop img existingFingerprints (c # cs) listings st =
     (case scrapeListingDetails img c existingFingerprints st of
        (Inr (Skipped title), st1) \<Rightarrow>
          listingLoop img existingFingerprints cs listings
            (st1\<lparr>listingsSkipped := listingsSkipped st1 + 1\<rparr>)
      | (Inr (Scraped l), st1) \<Rightarrow>
          listingLoop img existingFingerprints cs (listings @ [l]) st1
      | (Inl err, st1) \<Rightarrow>
          listingLoop img existingFingerprints cs listings
            (st1\<lparr>errors := errors st1 @ [ScrapeError (cand_url c) err]\<rparr>))"

definition scrapeDealer :: "imagePipeline \<Rightarrow> dealer \<Rightarrow> settings \<Rightarrow> string set \<Rightarrow> state
                             \<Rightarrow> listing list \<times> state" where
  "scrapeDealer img d config existingFingerprints st =
     (case dealer_search d of
        Inl err \<Rightarrow> ([], st\<lparr>errors := errors st @ [DealerError (dealer_url d) err]\<rparr>)
      | Inr listingUrls \<Rightarrow>
          listingLoop img existingFingerprints
            (take (maxListingsPerDealer config) listingUrls) [] st)"

section \<open>Main function\<close>

fun dealerLoop :: "imagePipeline \<Rightarrow> settings \<Rightarrow> string set \<Rightarrow> dealer list \<Rightarrow> listing list \<Rightarrow> state
                   \<Rightarrow> listing list \<times> state" where
  \<comment> \<open>\<^verbatim>\<open>for (const dealer of config.dealers)\<close> with its \<^verbatim>\<open>break\<close>\<close>
  "dealerLoop img config existingFingerprints [] allListings st = (allListings, st)"
| "dealerLoop img config existingFingerprints (d # ds) allListings st =
     (case scrapeDealer img d config existingFingerprints
             (st\<lparr>dealers := dealers st @ [(dealer_name d, dealer_url d)]\<rparr>) of
        (listings, st1) \<Rightarrow>
          let allListings1 = allListings @ listings;
              st2 = st1\<lparr>listingsFound := listingsFound st1 + length listings\<rparr>
          in if length allListings1 \<ge> maxTotalListings config
             then (take (maxTotalListings config) allListings1, st2)
             else dealerLoop img config existingFingerprints ds allListings1 st2)"

fun insertLoop :: "(listing \<Rightarrow> string option) \<Rightarrow> listing list \<Rightarrow> state \<Rightarrow> state" where
  \<comment> \<open>\<open>ins l\<close> is the error message of the database for \<open>l\<close>, if it reports one\<close>
  "insertLoop ins [] st = st"
| "insertLoop ins (l # ls) st =
     (case ins l of
        Some err \<Rightarrow> insertLoop ins ls (st\<lparr>errors := errors st @ [InsertError err (slug l)]\<rparr>)
      | None \<Rightarrow> insertLoop ins ls (st\<lparr>listingsNew := listingsNew st + 1\<rparr>))"

definition main :: "imagePipeline \<Rightarrow> (listing \<Rightarrow> string option) \<Rightarrow> settings \<Rightarrow> dealer list \<Rightarrow> nat
                    \<Rightarrow> string set \<Rightarrow> (listing list \<times> state) option" where
  \<comment> \<open>\<open>maxOverride\<close> is \<^verbatim>\<open>MAX_LISTINGS_OVERRIDE\<close> as parsed, \<open>existingFingerprints\<close> the
      set returned by \<^verbatim>\<open>getExistingFingerprints()\<close>; the result is \<open>None\<close> when the
      sync is disabled, else the listings handed to \<^verbatim>\<open>insertListing\<close> and the final log\<close>
  "main img ins config configDealers maxOverride existingFingerprints =
     (if \<not> enabled config then None
      else let config1 = (if maxOverride > 0 then config\<lparr>maxTotalListings := maxOverride\<rparr>
                          else config)
           in (case dealerLoop img config1 existingFingerprints configDealers [] initialState of
                 (allListings, st) \<Rightarrow> Some (allListings, insertLoop ins allListings st)))"

section \<open>Notions used in the statements\<close>

definition fetchedData :: "candidate list \<Rightarrow> rawData list" where
  \<comment> \<open>the raw data of the candidates whose page could be loaded, in order\<close>
  "fetchedData cs = concat (map (\<lambda>c. case cand_page c of Inl err \<Rightarrow> [] | Inr rawData \<Rightarrow> [rawData]) cs)"

definition keptUrl :: "imagePipeline \<Rightarrow> string \<Rightarrow> nat \<times> string \<Rightarrow> string option" where
  \<comment> \<open>the URL that image \<open>i\<close> contributes when it is processed with success\<close>
  "keptUrl img listingSlug p =
     (case p of (i, imageUrl) \<Rightarrow>
        (case img imageUrl listingSlug i of
           Returned (Some uploadedUrl) \<Rightarrow> if uploadedUrl \<noteq> [] then Some uploadedUrl else None
         | Returned None \<Rightarrow> None
         | Threw err \<Rightarrow> None))"

definition dealerNew :: "settings \<Rightarrow> string set \<Rightarrow> dealer \<Rightarrow> string list" where
  \<comment> \<open>the fingerprints of the loaded candidates of a dealer, within the per-dealer limit,
      that are not in the given set\<close>
  "dealerNew config known d =
     (case dealer_search d of
        Inl err \<Rightarrow> []
      | Inr listingUrls \<Rightarrow>
          filter (\<lambda>f. f \<notin> known)
            (map candidateFingerprint (fetchedData (take (maxListingsPerDealer config) listingUrls))))"

section \<open>Example inputs\<close>

definition exampleRaw :: rawData where
  "exampleRaw =
     \<lparr>raw_title = ''BMW 320d'', raw_price = Some ''24990'', raw_mileage = ''85.000 km'',
      raw_power = ''140 kW (190 PS)'', raw_fuelType = ''Diesel'', raw_transmission = ''Automatik'',
      raw_firstRegistration = ''03/2021'', raw_owners = ''1'',
      raw_condition = Some ''Gebrauchtfahrzeug, Unfallfrei'', raw_bodyType = ''Limousine'',
      raw_series = [], raw_variant = [], raw_hubraum = ''1.995 cm3'', raw_driveType = [],
      raw_seats = ''5'', raw_doors = ''4/5'', raw_emissionClass = ''Euro6d'',
      raw_emissionSticker = [], raw_hu = [], raw_climate = ''Klimaautomatik'',
      raw_parkingAssist = [], raw_airbags = [], raw_colorManufacturer = [],
      raw_color = ''Schwarz Metallic'', raw_interior = ''Vollleder, Schwarz'', raw_weight = [],
      raw_cylinders = ''4'', raw_tankSize = [], raw_subtitle = None, raw_features = [],
      raw_images = [''i01'', ''i02'', ''i03'', ''i04'', ''i05'', ''i06'', ''i07'', ''i08'',
                    ''i09'', ''i10'', ''i11'', ''i12'', ''i13'', ''i14'', ''i15'']\<rparr>"

definition exampleCandidate :: candidate where
  "exampleCandidate =
     \<lparr>cand_url = ''https://suchen.mobile.de/fahrzeuge/details.html?id=1'',
      cand_page = Inr exampleRaw, cand_random = ''00c0ffee''\<rparr>"

definition exampleTwin :: candidate where
  \<comment> \<open>the same vehicle listed a second time, with another price, colour and photo\<close>
  "exampleTwin =
     \<lparr>cand_url = ''https://suchen.mobile.de/fahrzeuge/details.html?id=2'',
      cand_page = Inr (exampleRaw\<lparr>raw_price := Some ''23500'', raw_color := ''Blau'',
                                   raw_images := [''j01'']\<rparr>),
      cand_random = ''0badcafe''\<rparr>"

definition exampleImages :: imagePipeline where
  \<comment> \<open>every image is uploaded, but the fourth (index 3) fails\<close>
  "exampleImages imageUrl listingSlug i =
     (if i = 3 then Threw ''Navigation timeout'' else Returned (Some (''cdn/'' @ imageUrl)))"

definition exampleSettings :: settings where
  "exampleSettings =
     \<lparr>enabled = True, maxListingsPerDealer = 2, maxTotalListings = 3,
      imageWidth = 1600, imageHeight = 1200\<rparr>"

definition exampleDealer :: dealer where
  "exampleDealer =
     \<lparr>dealer_name = ''Autohaus'', dealer_url = ''https://home.mobile.de/AUTOHAUS'',
      dealer_search = Inr [exampleCandidate, exampleTwin, exampleCandidate]\<rparr>"

section \<open>Evaluation\<close>

lemma replicate_numeral: "replicate (numeral k) x = x # replicate (pred_numeral k) x"
  by (simp add: numeral_eq_Suc)

lemmas md5_eval =
  md5_def hex_def hexDigit_def md5_pad_def utf8_def le_bytes_def le_word_def replicate_numeral
  md5_rounds_def md5_init_def md5_round1_def md5_round2_def md5_round3_def md5_round4_def
  md5_F_def md5_G_def md5_H_def md5_I_def add32_def not32_def rotl32_def

lemmas fingerprint_eval =
  generateFingerprint_def orElse_def decimal.simps digitChar_def Let_def md5_eval

lemma fingerprint_85000:
  "generateFingerprint (JStr ''BMW'') (JStr ''320d'') (JNum 85000) (JStr ''202103'')
     = ''340c3f097964ef1b8be801ff7633eeda''"
  by (simp add: fingerprint_eval)

lemma fingerprint_85001:
  "generateFingerprint (JStr ''BMW'') (JStr ''320d'') (JNum 85001) (JStr ''202103'')
     = ''0090ddf655acfb4e011f1292984786a4''"
  by (simp add: fingerprint_eval)

lemma toLowerChar_eval:
  "toLowerChar (CHR 0x20) = CHR 0x20" "toLowerChar (CHR 0x21) = CHR 0x21"
  "toLowerChar (CHR 0x22) = CHR 0x22" "toLowerChar (CHR 0x23) = CHR 0x23"
  "toLowerChar (CHR 0x24) = CHR 0x24" "toLowerChar (CHR 0x25) = CHR 0x25"
  "toLowerChar (CHR 0x26) = CHR 0x26" "toLowerChar (CHR 0x27) = CHR 0x27"
  "toLowerChar (CHR 0x28) = CHR 0x28" "toLowerChar (CHR 0x29) = CHR 0x29"
  "toLowerChar (CHR 0x2A) = CHR 0x2A" "toLowerChar (CHR 0x2B) = CHR 0x2B"
  "toLowerChar (CHR 0x2C) = CHR 0x2C" "toLowerChar (CHR 0x2D) = CHR 0x2D"
  "toLowerChar (CHR 0x2E) = CHR 0x2E" "toLowerChar (CHR 0x2F) = CHR 0x2F"
  "toLowerChar (CHR 0x30) = CHR 0x30" "toLowerChar (CHR 0x31) = CHR 0x31"
  "toLowerChar (CHR 0x32) = CHR 0x32" "toLowerChar (CHR 0x33) = CHR 0x33"
  "toLowerChar (CHR 0x34) = CHR 0x34" "toLowerChar (CHR 0x35) = CHR 0x35"
  "toLowerChar (CHR 0x36) = CHR 0x36" "toLowerChar (CHR 0x37) = CHR 0x37"
  "toLowerChar (CHR 0x38) = CHR 0x38" "toLowerChar (CHR 0x39) = CHR 0x39"
  "toLowerChar (CHR 0x3A) = CHR 0x3A" "toLowerChar (CHR 0x3B) = CHR 0x3B"
  "toLowerChar (CHR 0x3C) = CHR 0x3C" "toLowerChar (CHR 0x3D) = CHR 0x3D"
  "toLowerChar (CHR 0x3E) = CHR 0x3E" "toLowerChar (CHR 0x3F) = CHR 0x3F"
  "toLowerChar (CHR 0x40) = CHR 0x40" "toLowerChar (CHR 0x41) = CHR 0x61"
  "toLowerChar (CHR 0x42) = CHR 0x62" "toLowerChar (CHR 0x43) = CHR 0x63"
  "toLowerChar (CHR 0x44) = CHR 0x64" "toLowerChar (CHR 0x45) = CHR 0x65"
  "toLowerChar (CHR 0x46) = CHR 0x66" "toLowerChar (CHR 0x47) = CHR 0x67"
  "toLowerChar (CHR 0x48) = CHR 0x68" "toLowerChar (CHR 0x49) = CHR 0x69"
  "toLowerChar (CHR 0x4A) = CHR 0x6A" "toLowerChar (CHR 0x4B) = CHR 0x6B"
  "toLowerChar (CHR 0x4C) = CHR 0x6C" "toLowerChar (CHR 0x4D) = CHR 0x6D"
  "toLowerChar (CHR 0x4E) = CHR 0x6E" "toLowerChar (CHR 0x4F) = CHR 0x6F"
  "toLowerChar (CHR 0x50) = CHR 0x70" "toLowerChar (CHR 0x51) = CHR 0x71"
  "toLowerChar (CHR 0x52) = CHR 0x72" "toLowerChar (CHR 0x53) = CHR 0x73"
  "toLowerChar (CHR 0x54) = CHR 0x74" "toLowerChar (CHR 0x55) = CHR 0x75"
  "toLowerChar (CHR 0x56) = CHR 0x76" "toLowerChar (CHR 0x57) = CHR 0x77"
  "toLowerChar (CHR 0x58) = CHR 0x78" "toLowerChar (CHR 0x59) = CHR 0x79"
  "toLowerChar (CHR 0x5A) = CHR 0x7A" "toLowerChar (CHR 0x5B) = CHR 0x5B"
  "toLowerChar (CHR 0x5C) = CHR 0x5C" "toLowerChar (CHR 0x5D) = CHR 0x5D"
  "toLowerChar (CHR 0x5E) = CHR 0x5E" "toLowerChar (CHR 0x5F) = CHR 0x5F"
  "toLowerChar (CHR 0x60) = CHR 0x60" "toLowerChar (CHR 0x61) = CHR 0x61"
  "toLowerChar (CHR 0x62) = CHR 0x62" "toLowerChar (CHR 0x63) = CHR 0x63"
  "toLowerChar (CHR 0x64) = CHR 0x64" "toLowerChar (CHR 0x65) = CHR 0x65"
  "toLowerChar (CHR 0x66) = CHR 0x66" "toLowerChar (CHR 0x67) = CHR 0x67"
  "toLowerChar (CHR 0x68) = CHR 0x68" "toLowerChar (CHR 0x69) = CHR 0x69"
  "toLowerChar (CHR 0x6A) = CHR 0x6A" "toLowerChar (CHR 0x6B) = CHR 0x6B"
  "toLowerChar (CHR 0x6C) = CHR 0x6C" "toLowerChar (CHR 0x6D) = CHR 0x6D"
  "toLowerChar (CHR 0x6E) = CHR 0x6E" "toLowerChar (CHR 0x6F) = CHR 0x6F"
  "toLowerChar (CHR 0x70) = CHR 0x70" "toLowerChar (CHR 0x71) = CHR 0x71"
  "toLowerChar (CHR 0x72) = CHR 0x72" "toLowerChar (CHR 0x73) = CHR 0x73"
  "toLowerChar (CHR 0x74) = CHR 0x74" "toLowerChar (CHR 0x75) = CHR 0x75"
  "toLowerChar (CHR 0x76) = CHR 0x76" "toLowerChar (CHR 0x77) = CHR 0x77"
  "toLowerChar (CHR 0x78) = CHR 0x78" "toLowerChar (CHR 0x79) = CHR 0x79"
  "toLowerChar (CHR 0x7A) = CHR 0x7A" "toLowerChar (CHR 0x7B) = CHR 0x7B"
  "toLowerChar (CHR 0x7C) = CHR 0x7C" "toLowerChar (CHR 0x7D) = CHR 0x7D"
  "toLowerChar (CHR 0x7E) = CHR 0x7E" "toLowerChar (CHR 0xC4) = CHR 0xE4"
  "toLowerChar (CHR 0xD6) = CHR 0xF6" "toLowerChar (CHR 0xDC) = CHR 0xFC"
  "toLowerChar (CHR 0xC9) = CHR 0xE9" "toLowerChar (CHR 0xCB) = CHR 0xEB"
  "toLowerChar (CHR 0xDF) = CHR 0xDF" "toLowerChar (CHR 0xE4) = CHR 0xE4"
  "toLowerChar (CHR 0xE9) = CHR 0xE9" "toLowerChar (CHR 0xEB) = CHR 0xEB"
  "toLowerChar (CHR 0xF6) = CHR 0xF6" "toLowerChar (CHR 0xFC) = CHR 0xFC"
  "toLowerChar (CHR 0xA0) = CHR 0xA0" "toLowerChar (CHR 0x09) = CHR 0x09"
  by (simp_all add: toLowerChar_def upperChars_def lowerChars_def)

lemmas lower_eval = toLowerCase_def toLowerChar_eval

section \<open>Strings\<close>

lemma startsWith_iff: "startsWith s p \<longleftrightarrow> (\<exists>post. s = p @ post)"
  by (induction s p rule: startsWith.induct) auto

lemma includes_str_iff: "includes_str s sub \<longleftrightarrow> (\<exists>pre post. s = pre @ sub @ post)"
proof (induction s)
  case Nil
  then show ?case by auto
next
  case (Cons c cs)
  show ?case
  proof
    assume "includes_str (c # cs) sub"
    then consider "startsWith (c # cs) sub" | "includes_str cs sub" by auto
    then show "\<exists>pre post. c # cs = pre @ sub @ post"
    proof cases
      case 1
      then obtain post where "c # cs = sub @ post" by (auto simp: startsWith_iff)
      then have "c # cs = [] @ sub @ post" by simp
      then show ?thesis by blast
    next
      case 2
      then obtain pre post where "cs = pre @ sub @ post" using Cons.IH by auto
      then have "c # cs = (c # pre) @ sub @ post" by simp
      then show ?thesis by blast
    qed
  next
    assume "\<exists>pre post. c # cs = pre @ sub @ post"
    then obtain pre post where eq: "c # cs = pre @ sub @ post" by auto
    show "includes_str (c # cs) sub"
    proof (cases pre)
      case Nil
      then have "startsWith (c # cs) sub" using eq by (auto simp: startsWith_iff)
      then show ?thesis by simp
    next
      case (Cons a pre')
      then have "cs = pre' @ sub @ post" using eq by simp
      then have "includes_str cs sub" using Cons.IH by auto
      then show ?thesis by simp
    qed
  qed
qed

lemma includes_str_eval:
  "includes_str s [] = True"
  "includes_str [] (p # ps) = False"
  "includes_str (c # cs) (p # ps) = (startsWith (c # cs) (p # ps) \<or> includes_str cs (p # ps))"
  by (cases s) simp_all

declare includes_str.simps [simp del]

lemmas makeModel_eval = parseMakeModel_def knownMakes_def trim_def isSpace_def

lemmas registration_eval = parseRegistration_def monthYearAt_def isDigit_def Let_def

section \<open>The fingerprint\<close>

lemma orElse_falsy: "\<not> truthy a \<Longrightarrow> orElse a (JStr []) = JStr []"
  by (simp add: orElse_def)

text \<open>
  C10.  In \<^verbatim>\<open>generateFingerprint\<close> every falsy argument is replaced by the empty string
  before hashing: in each of the four positions, two falsy values (\<^verbatim>\<open>null\<close>,
  \<^verbatim>\<open>undefined\<close>, \<open>0\<close>, the empty string) give the same fingerprint, the one of the empty
  string; so mileage \<open>0\<close> and an absent mileage are not told apart.
\<close>

theorem generateFingerprint_falsy_arguments:
  assumes "\<not> truthy a" and "\<not> truthy b"
  shows "generateFingerprint a x y z = generateFingerprint b x y z
       \<and> generateFingerprint x a y z = generateFingerprint x b y z
       \<and> generateFingerprint x y a z = generateFingerprint x y b z
       \<and> generateFingerprint x y z a = generateFingerprint x y z b
       \<and> generateFingerprint a x y z = generateFingerprint (JStr []) x y z
       \<and> generateFingerprint x a y z = generateFingerprint x (JStr []) y z
       \<and> generateFingerprint x y a z = generateFingerprint x y (JStr []) z
       \<and> generateFingerprint x y z a = generateFingerprint x y z (JStr [])"
  using assms by (simp add: generateFingerprint_def orElse_falsy)

theorem generateFingerprint_falsy_arguments_witness:
  "\<not> truthy (JNum 0) \<and> \<not> truthy JNull \<and> \<not> truthy JUndefined \<and> \<not> truthy (JStr [])
   \<and> generateFingerprint (JStr ''BMW'') (JStr ''320d'') (JNum 0) (JStr ''202103'')
       = generateFingerprint (JStr ''BMW'') (JStr ''320d'') JNull (JStr ''202103'')"
proof -
  have zero: "\<not> truthy (JNum 0)" and null: "\<not> truthy JNull" by simp_all
  from generateFingerprint_falsy_arguments
         [OF zero null, of "JStr ''BMW''" "JStr ''320d''" "JStr ''202103''"]
  show ?thesis by simp
qed

section \<open>The lexical normalizer\<close>

lemma firstEntry_None_iff: "firstEntry P m = None \<longleftrightarrow> (\<forall>key \<in> fst ` set m. \<not> P key)"
  by (induction P m rule: firstEntry.induct) auto

lemma firstEntry_first:
  "(\<forall>key \<in> fst ` set pre. \<not> P key) \<Longrightarrow> P key \<Longrightarrow> firstEntry P (pre @ (key, val) # post) = Some val"
  by (induction P pre rule: firstEntry.induct) auto

lemma firstEntry_SomeD:
  "firstEntry P m = Some val \<Longrightarrow>
     \<exists>pre key post. m = pre @ (key, val) # post \<and> P key \<and> (\<forall>k \<in> fst ` set pre. \<not> P k)"
proof (induction P m rule: firstEntry.induct)
  case (1 P)
  then show ?case by simp
next
  case (2 P key v es)
  show ?case
  proof (cases "P key")
    case True
    with 2 have "v = val" by simp
    with True have "(key, v) # es = [] @ (key, val) # es \<and> P key \<and> (\<forall>k \<in> fst ` set []. \<not> P k)" by simp
    then show ?thesis by blast
  next
    case False
    with 2 obtain pre k post where "es = pre @ (k, val) # post" "P k" "\<forall>k \<in> fst ` set pre. \<not> P k"
      by auto
    with False have "(key, v) # es = ((key, v) # pre) @ (k, val) # post \<and> P k \<and> (\<forall>k \<in> fst ` set ((key, v) # pre). \<not> P k)"
      by simp
    then show ?thesis by blast
  qed
qed

lemma normalizeValue_null: "normalizeValue None m = NNull" "normalizeValue (Some []) m = NNull"
  by (simp_all add: normalizeValue_def)

lemma normalizeValue_exact:
  assumes "map_of m v = Some x" "x \<noteq> []" "v \<noteq> []"
  shows "normalizeValue (Some v) m = NStr x"
  using assms by (simp add: normalizeValue_def getProp_def)

lemma normalizeValue_fallback:
  assumes "v \<noteq> []" "map_of m v = None" "v \<notin> set objectPrototypeKeys"
  shows "normalizeValue (Some v) m =
           (case firstEntry (\<lambda>key. toLowerCase key = toLowerCase v) m of
              Some val \<Rightarrow> NStr val
            | None \<Rightarrow> (case firstEntry (\<lambda>key. includes_str (toLowerCase v) (toLowerCase key)) m of
                          Some val \<Rightarrow> NStr val
                        | None \<Rightarrow> NNull))"
  using assms by (simp add: normalizeValue_def getProp_def Let_def)

lemma normalizeValue_examples:
  "normalizeValue (Some ''Benzin'') [(''Benzin'', ''PETROL'')] = NStr ''PETROL''"
  "normalizeValue (Some ''benzin'') [(''Benzin'', ''PETROL'')] = NStr ''PETROL''"
  "normalizeValue (Some ''Benzin Plus'') [(''Benzin'', ''PETROL'')] = NStr ''PETROL''"
  "normalizeValue (Some ''Strom'') [(''Benzin'', ''PETROL'')] = NNull"
  by (simp_all add: normalizeValue_def getProp_def objectPrototypeKeys_def lower_eval
        includes_str_eval Let_def)

lemma normalizeValue_falsy_mapped_value:
  "normalizeValue (Some ''Benzin'') [(''BENZIN'', ''X''), (''Benzin'', [])] = NStr ''X''"
  by (simp add: normalizeValue_def getProp_def objectPrototypeKeys_def lower_eval)

text \<open>
  C2.  The claim lets every value that matches no key on any of the three tiers come out
  as \<^verbatim>\<open>null\<close>.  The exact tier is the truthiness test \<^verbatim>\<open>if (map[value])\<close>, and the
  read \<^verbatim>\<open>map[value]\<close> also finds what the table inherits from \<^verbatim>\<open>Object.prototype\<close>:
  for the source text \<^verbatim>\<open>constructor\<close> and the fuel table no key matches exactly, none
  matches without case and none is a substring, yet the function returns the inherited
  member instead of \<^verbatim>\<open>null\<close>.
\<close>

theorem normalizeValue_inherited_property:
  "normalizeValue (Some ''constructor'') fuelTypeMap = NProto ''constructor''
   \<and> normalizeValue (Some ''constructor'') fuelTypeMap \<noteq> NNull
   \<and> map_of fuelTypeMap ''constructor'' = None
   \<and> firstEntry (\<lambda>key. toLowerCase key = toLowerCase ''constructor'') fuelTypeMap = None
   \<and> firstEntry (\<lambda>key. includes_str (toLowerCase ''constructor'') (toLowerCase key)) fuelTypeMap = None"
  by (simp add: normalizeValue_def getProp_def objectPrototypeKeys_def fuelTypeMap_def lower_eval
        includes_str_eval)

section \<open>One candidate\<close>

lemma imageLoop_result:
  "imageLoop img s i imgs acc st =
     (acc @ List.map_filter (keptUrl img s) (List.enumerate i imgs),
      st\<lparr>imageCalls := imageCalls st @ map (\<lambda>(k, u). (u, s, k)) (List.enumerate i imgs),
         imagesUploaded := imagesUploaded st
            + length (List.map_filter (keptUrl img s) (List.enumerate i imgs))\<rparr>)"
proof (induction imgs arbitrary: i acc st)
  case Nil
  then show ?case by (simp add: List.map_filter_simps)
next
  case (Cons u us)
  show ?case
    by (cases "img u s i")
       (simp_all add: Cons List.map_filter_simps keptUrl_def Let_def split: option.splits)
qed

lemma scrapeListingDetails_error:
  "cand_page c = Inl err \<Longrightarrow> scrapeListingDetails img c known st = (Inl err, st)"
  by (simp add: scrapeListingDetails_def)

lemma scrapeListingDetails_skip:
  "cand_page c = Inr r \<Longrightarrow> candidateFingerprint r \<in> known
     \<Longrightarrow> scrapeListingDetails img c known st = (Inr (Skipped (raw_title r)), st)"
  by (cases "parseMakeModel (Some (raw_title r))")
     (simp add: scrapeListingDetails_def candidateFingerprint_def Let_def)

lemma scrapeListingDetails_scraped:
  assumes "cand_page c = Inr r" and "candidateFingerprint r \<notin> known"
  shows "\<exists>l. scrapeListingDetails img c known st
               = (Inr (Scraped l),
                  snd (imageLoop img (slug l) 0 (take (min (length (raw_images r)) 10) (raw_images r)) [] st))
             \<and> images l = fst (imageLoop img (slug l) 0 (take (min (length (raw_images r)) 10) (raw_images r)) [] st)
             \<and> fingerprint l = candidateFingerprint r
             \<and> make_field l = fst (parseMakeModel (Some (raw_title r)))
             \<and> model l = snd (parseMakeModel (Some (raw_title r)))
             \<and> mileage l = parseNumeric (Some (raw_mileage r))
             \<and> first_registration l = parseRegistration (Some (raw_firstRegistration r))
             \<and> condition l = (if conditionIncludes (raw_condition r) ''neuwagen'' then JStr ''NEW'' else JStr ''USED'')
             \<and> accident_damaged l = (if conditionIncludes (raw_condition r) ''unfallfrei'' then JBool False else JNull)
             \<and> source_url l = cand_url c"
  using assms
  by (cases "parseMakeModel (Some (raw_title r))")
     (simp add: scrapeListingDetails_def candidateFingerprint_def Let_def split: prod.splits)


lemma scrapeListingDetails_ScrapedD:
  assumes "scrapeListingDetails img c known st = (Inr (Scraped l), st')"
  obtains r where "cand_page c = Inr r" and "candidateFingerprint r \<notin> known"
    and "st' = snd (imageLoop img (slug l) 0 (take (min (length (raw_images r)) 10) (raw_images r)) [] st)"
    and "images l = fst (imageLoop img (slug l) 0 (take (min (length (raw_images r)) 10) (raw_images r)) [] st)"
    and "fingerprint l = candidateFingerprint r"
    and "make_field l = fst (parseMakeModel (Some (raw_title r)))"
    and "model l = snd (parseMakeModel (Some (raw_title r)))"
    and "mileage l = parseNumeric (Some (raw_mileage r))"
    and "first_registration l = parseRegistration (Some (raw_firstRegistration r))"
    and "condition l = (if conditionIncludes (raw_condition r) ''neuwagen'' then JStr ''NEW'' else JStr ''USED'')"
    and "accident_damaged l = (if conditionIncludes (raw_condition r) ''unfallfrei'' then JBool False else JNull)"
proof (cases "cand_page c")
  case (Inl err)
  with assms show ?thesis by (simp add: scrapeListingDetails_error)
next
  case (Inr r)
  show ?thesis
  proof (cases "candidateFingerprint r \<in> known")
    case True
    with Inr assms show ?thesis by (simp add: scrapeListingDetails_skip)
  next
    case False
    from scrapeListingDetails_scraped [OF Inr False, of img st] assms that [OF Inr False]
    show ?thesis by auto
  qed
qed

lemma candidateFingerprint_exampleRaw:
  "candidateFingerprint exampleRaw = ''340c3f097964ef1b8be801ff7633eeda''"
proof -
  have "parseMakeModel (Some (raw_title exampleRaw)) = (Some ''BMW'', Some ''320d'')"
    by (simp add: exampleRaw_def makeModel_eval)
  moreover have "parseNumeric (Some (raw_mileage exampleRaw)) = Some 85000"
    by (simp add: exampleRaw_def parseNumeric_def parseInt_def isDigit_def)
  moreover have "parseRegistration (Some (raw_firstRegistration exampleRaw)) = Some ''202103''"
    by (simp add: exampleRaw_def registration_eval)
  ultimately show ?thesis
    by (simp add: candidateFingerprint_def strVal_def numVal_def fingerprint_85000)
qed

text \<open>
  C1.  The fingerprint of a listing is \<^verbatim>\<open>generateFingerprint\<close> applied to the listing's own
  make, model, mileage and first registration, whatever page, known set, image results and
  log it was built from; so two listings that agree in these four fields have the same
  fingerprint, whatever their other fields are.  (That equal arguments give equal digests
  holds of every function of the logic; the source reads nothing but its four arguments.)
  The digest of \<^verbatim>\<open>BMW|320d|85000|202103\<close> differs from the one with mileage 85001.
\<close>

theorem fingerprint_of_four_fields:
  assumes "scrapeListingDetails img1 c1 known1 st1 = (Inr (Scraped l1), st1')"
      and "scrapeListingDetails img2 c2 known2 st2 = (Inr (Scraped l2), st2')"
  shows "fingerprint l1 = generateFingerprint (strVal (make_field l1)) (strVal (model l1))
                            (numVal (mileage l1)) (strVal (first_registration l1))
       \<and> (make_field l1 = make_field l2 \<and> model l1 = model l2 \<and> mileage l1 = mileage l2
            \<and> first_registration l1 = first_registration l2
          \<longrightarrow> fingerprint l1 = fingerprint l2)
       \<and> generateFingerprint (JStr ''BMW'') (JStr ''320d'') (JNum 85000) (JStr ''202103'')
           = ''340c3f097964ef1b8be801ff7633eeda''
       \<and> generateFingerprint (JStr ''BMW'') (JStr ''320d'') (JNum 85001) (JStr ''202103'')
           = ''0090ddf655acfb4e011f1292984786a4''
       \<and> generateFingerprint (JStr ''BMW'') (JStr ''320d'') (JNum 85000) (JStr ''202103'')
           \<noteq> generateFingerprint (JStr ''BMW'') (JStr ''320d'') (JNum 85001) (JStr ''202103'')"
proof -
  have own: "fingerprint l = generateFingerprint (strVal (make_field l)) (strVal (model l))
                            (numVal (mileage l)) (strVal (first_registration l))"
    if "scrapeListingDetails img c known st = (Inr (Scraped l), st')" for img c known st l st'
    using that
    by (rule scrapeListingDetails_ScrapedD) (simp add: candidateFingerprint_def split: prod.splits)
  from own [OF assms(1)] own [OF assms(2)] show ?thesis
    by (simp add: fingerprint_85000 fingerprint_85001)
qed

theorem fingerprint_of_four_fields_witness:
  "(case fst (scrapeListingDetails exampleImages exampleCandidate {} initialState) of
      Inr (Scraped l) \<Rightarrow> Some (fingerprint l) | _ \<Rightarrow> None)
     = Some ''340c3f097964ef1b8be801ff7633eeda''
   \<and> (case fst (scrapeListingDetails exampleImages exampleTwin {} initialState) of
      Inr (Scraped l) \<Rightarrow> Some (fingerprint l) | _ \<Rightarrow> None)
     = Some ''340c3f097964ef1b8be801ff7633eeda''
   \<and> exampleCandidate \<noteq> exampleTwin"
proof -
  let ?twinRaw = "exampleRaw\<lparr>raw_price := Some ''23500'', raw_color := ''Blau'', raw_images := [''j01'']\<rparr>"
  have p1: "cand_page exampleCandidate = Inr exampleRaw" by (simp add: exampleCandidate_def)
  have p2: "cand_page exampleTwin = Inr ?twinRaw" by (simp add: exampleTwin_def)
  have f1: "candidateFingerprint exampleRaw \<notin> {}" by simp
  have f2: "candidateFingerprint ?twinRaw \<notin> {}" by simp
  obtain l1 where s1: "scrapeListingDetails exampleImages exampleCandidate {} initialState
      = (Inr (Scraped l1), snd (imageLoop exampleImages (slug l1) 0 (take (min (length (raw_images exampleRaw)) 10) (raw_images exampleRaw)) [] initialState))"
    and fp1: "fingerprint l1 = candidateFingerprint exampleRaw"
    and mk1: "make_field l1 = fst (parseMakeModel (Some (raw_title exampleRaw)))"
    and md1: "model l1 = snd (parseMakeModel (Some (raw_title exampleRaw)))"
    and ml1: "mileage l1 = parseNumeric (Some (raw_mileage exampleRaw))"
    and rg1: "first_registration l1 = parseRegistration (Some (raw_firstRegistration exampleRaw))"
    using scrapeListingDetails_scraped [OF p1 f1, of exampleImages initialState] by blast
  obtain l2 where s2: "scrapeListingDetails exampleImages exampleTwin {} initialState
      = (Inr (Scraped l2), snd (imageLoop exampleImages (slug l2) 0 (take (min (length (raw_images ?twinRaw)) 10) (raw_images ?twinRaw)) [] initialState))"
    and mk2: "make_field l2 = fst (parseMakeModel (Some (raw_title ?twinRaw)))"
    and md2: "model l2 = snd (parseMakeModel (Some (raw_title ?twinRaw)))"
    and ml2: "mileage l2 = parseNumeric (Some (raw_mileage ?twinRaw))"
    and rg2: "first_registration l2 = parseRegistration (Some (raw_firstRegistration ?twinRaw))"
    using scrapeListingDetails_scraped [OF p2 f2, of exampleImages initialState] by blast
  have same: "make_field l1 = make_field l2 \<and> model l1 = model l2 \<and> mileage l1 = mileage l2
            \<and> first_registration l1 = first_registration l2"
    using mk1 md1 ml1 rg1 mk2 md2 ml2 rg2 by simp
  from fingerprint_of_four_fields [OF s1 s2] same have "fingerprint l1 = fingerprint l2" by blast
  with fp1 have "fingerprint l1 = ''340c3f097964ef1b8be801ff7633eeda''"
    "fingerprint l2 = ''340c3f097964ef1b8be801ff7633eeda''"
    by (simp_all add: candidateFingerprint_exampleRaw)
  moreover have "exampleCandidate \<noteq> exampleTwin"
    by (simp add: exampleCandidate_def exampleTwin_def)
  ultimately show ?thesis using s1 s2 by simp
qed

section \<open>Condition and accident flag\<close>

text \<open>
  C9.  In every assembled listing \<^verbatim>\<open>condition\<close> is never \<^verbatim>\<open>null\<close>: it is \<^verbatim>\<open>'NEW'\<close>
  exactly when the raw condition text, in lower case, contains \<^verbatim>\<open>neuwagen\<close>, and
  \<^verbatim>\<open>'USED'\<close> otherwise, also when the raw field is absent or empty; and
  \<^verbatim>\<open>accident_damaged\<close> is never \<^verbatim>\<open>true\<close>: it is \<^verbatim>\<open>false\<close> exactly when the text contains
  \<^verbatim>\<open>unfallfrei\<close>, and \<^verbatim>\<open>null\<close> otherwise.
\<close>

theorem condition_and_accident_defaults:
  assumes "scrapeListingDetails img c known st = (Inr (Scraped l), st')" and "cand_page c = Inr r"
  shows "condition l \<noteq> JNull
       \<and> (condition l = JStr ''NEW'' \<or> condition l = JStr ''USED'')
       \<and> (condition l = JStr ''NEW''
            \<longleftrightarrow> (\<exists>s. raw_condition r = Some s \<and> includes_str (toLowerCase s) ''neuwagen''))
       \<and> (raw_condition r = None \<or> raw_condition r = Some [] \<longrightarrow> condition l = JStr ''USED'')
       \<and> accident_damaged l \<noteq> JBool True
       \<and> (accident_damaged l = JBool False \<or> accident_damaged l = JNull)
       \<and> (accident_damaged l = JBool False
            \<longleftrightarrow> (\<exists>s. raw_condition r = Some s \<and> includes_str (toLowerCase s) ''unfallfrei''))"
proof -
  from assms(1) obtain r' where "cand_page c = Inr r'"
    and c: "condition l = (if conditionIncludes (raw_condition r') ''neuwagen'' then JStr ''NEW'' else JStr ''USED'')"
    and a: "accident_damaged l = (if conditionIncludes (raw_condition r') ''unfallfrei'' then JBool False else JNull)"
    by (rule scrapeListingDetails_ScrapedD)
  with assms(2) have "r' = r" by simp
  with c a show ?thesis
    by (cases "raw_condition r")
       (simp_all add: conditionIncludes_def toLowerCase_def includes_str_eval)
qed

theorem condition_and_accident_defaults_witness:
  "(case fst (scrapeListingDetails exampleImages exampleCandidate {} initialState) of
      Inr (Scraped l) \<Rightarrow> Some (condition l, accident_damaged l) | _ \<Rightarrow> None)
     = Some (JStr ''USED'', JBool False)
   \<and> cand_page exampleCandidate = Inr exampleRaw
   \<and> raw_condition exampleRaw = Some ''Gebrauchtfahrzeug, Unfallfrei''"
proof -
  have p: "cand_page exampleCandidate = Inr exampleRaw" by (simp add: exampleCandidate_def)
  have rc: "raw_condition exampleRaw = Some ''Gebrauchtfahrzeug, Unfallfrei''"
    by (simp add: exampleRaw_def)
  have f: "candidateFingerprint exampleRaw \<notin> {}" by simp
  obtain l st' where s: "scrapeListingDetails exampleImages exampleCandidate {} initialState
      = (Inr (Scraped l), st')"
    using scrapeListingDetails_scraped [OF p f, of exampleImages initialState] by blast
  have nw: "\<not> includes_str (toLowerCase ''Gebrauchtfahrzeug, Unfallfrei'') ''neuwagen''"
    by (simp add: lower_eval includes_str_eval)
  have uf: "includes_str (toLowerCase ''Gebrauchtfahrzeug, Unfallfrei'') ''unfallfrei''"
    by (simp add: lower_eval includes_str_eval)
  from condition_and_accident_defaults [OF s p] rc nw uf
  have "condition l = JStr ''USED''" "accident_damaged l = JBool False" by auto
  with s p rc show ?thesis by simp
qed

section \<open>Deduplication\<close>

lemma listingLoop_skip:
  assumes "cand_page c = Inr r" and "candidateFingerprint r \<in> known"
  shows "listingLoop img known (c # cs) listings st
           = listingLoop img known cs listings (st\<lparr>listingsSkipped := listingsSkipped st + 1\<rparr>)"
  using assms by (simp add: scrapeListingDetails_skip)

text \<open>
  C3.  A candidate whose fingerprint is in the known set is skipped at once: the call returns
  only the title, with the state untouched, so no image is processed and no listing is
  built; the loop of the dealer adds exactly 1 to \<^verbatim>\<open>listingsSkipped\<close>, changes nothing else
  and adds nothing to the listings that go on to the insertion.
\<close>

theorem known_fingerprint_short_circuits:
  assumes "cand_page c = Inr r" and "candidateFingerprint r \<in> known"
  shows "scrapeListingDetails img c known st = (Inr (Skipped (raw_title r)), st)
       \<and> listingLoop img known (c # cs) listings st
           = listingLoop img known cs listings (st\<lparr>listingsSkipped := listingsSkipped st + 1\<rparr>)
       \<and> listingLoop img known [c] listings st
           = (listings, st\<lparr>listingsSkipped := listingsSkipped st + 1\<rparr>)
       \<and> imageCalls (snd (listingLoop img known [c] listings st)) = imageCalls st
       \<and> imagesUploaded (snd (listingLoop img known [c] listings st)) = imagesUploaded st
       \<and> errors (snd (listingLoop img known [c] listings st)) = errors st
       \<and> listingsSkipped (snd (listingLoop img known [c] listings st)) = listingsSkipped st + 1
       \<and> fst (listingLoop img known [c] listings st) = listings
       \<and> (dealer_search d = Inr [c] \<and> 0 < maxListingsPerDealer config
            \<longrightarrow> scrapeDealer img d config known st
                  = ([], st\<lparr>listingsSkipped := listingsSkipped st + 1\<rparr>))"
  using assms
  by (auto simp add: scrapeListingDetails_skip scrapeDealer_def take_Cons')

theorem known_fingerprint_short_circuits_witness:
  "cand_page exampleCandidate = Inr exampleRaw
   \<and> candidateFingerprint exampleRaw \<in> {''340c3f097964ef1b8be801ff7633eeda''}
   \<and> listingLoop exampleImages {''340c3f097964ef1b8be801ff7633eeda''} [exampleCandidate] [] initialState
       = ([], initialState\<lparr>listingsSkipped := 1\<rparr>)
   \<and> imageCalls (snd (listingLoop exampleImages {''340c3f097964ef1b8be801ff7633eeda''}
                          [exampleCandidate] [] initialState)) = []"
proof -
  have p: "cand_page exampleCandidate = Inr exampleRaw" by (simp add: exampleCandidate_def)
  have f: "candidateFingerprint exampleRaw \<in> {''340c3f097964ef1b8be801ff7633eeda''}"
    by (simp add: candidateFingerprint_exampleRaw)
  from known_fingerprint_short_circuits [OF p f, of exampleImages initialState "[]" "[]"] p f
  show ?thesis by (simp add: initialState_def)
qed

section \<open>The image loop\<close>

lemma imageLoop_attempts:
  "map fst (imageCalls (snd (imageLoop img s i imgs acc st))) = map fst (imageCalls st) @ imgs"
  by (simp add: imageLoop_result enumerate_eq_zip comp_def case_prod_unfold)

lemma imageLoop_errors:
  "errors (snd (imageLoop img s i imgs acc st)) = errors st"
  by (simp add: imageLoop_result)

lemma images_attempted:
  assumes "scrapeListingDetails img c known st = (Inr (Scraped l), st')" and "cand_page c = Inr r"
  shows "map fst (imageCalls st') = map fst (imageCalls st) @ take 10 (raw_images r)"
    and "length (imageCalls st') = length (imageCalls st) + min (length (raw_images r)) 10"
    and "images l = List.map_filter (keptUrl img (slug l)) (List.enumerate 0 (take 10 (raw_images r)))"
    and "errors st' = errors st"
    and "imagesUploaded st' = imagesUploaded st + length (images l)"
proof -
  from assms(1) obtain r' where "cand_page c = Inr r'"
    and st': "st' = snd (imageLoop img (slug l) 0 (take (min (length (raw_images r')) 10) (raw_images r')) [] st)"
    and im: "images l = fst (imageLoop img (slug l) 0 (take (min (length (raw_images r')) 10) (raw_images r')) [] st)"
    by (rule scrapeListingDetails_ScrapedD)
  with assms(2) have r: "r' = r" by simp
  have tk: "take (min (length (raw_images r)) 10) (raw_images r) = take 10 (raw_images r)"
    by (simp add: min_def)
  show "map fst (imageCalls st') = map fst (imageCalls st) @ take 10 (raw_images r)"
    using st' r tk by (simp add: imageLoop_attempts)
  then have "length (map fst (imageCalls st')) = length (map fst (imageCalls st) @ take 10 (raw_images r))"
    by simp
  then show "length (imageCalls st') = length (imageCalls st) + min (length (raw_images r)) 10"
    by simp
  show "images l = List.map_filter (keptUrl img (slug l)) (List.enumerate 0 (take 10 (raw_images r)))"
    using im r tk by (simp add: imageLoop_result)
  show "errors st' = errors st" using st' by (simp add: imageLoop_errors)
  show "imagesUploaded st' = imagesUploaded st + length (images l)"
    using st' im by (simp add: imageLoop_result)
qed

lemma exampleImages_loop:
  "imageLoop exampleImages s 0 (take 10 (raw_images exampleRaw)) [] initialState
     = ([''cdn/i01'', ''cdn/i02'', ''cdn/i03'', ''cdn/i05'', ''cdn/i06'', ''cdn/i07'',
         ''cdn/i08'', ''cdn/i09'', ''cdn/i10''],
        initialState\<lparr>imageCalls := [(''i01'', s, 0), (''i02'', s, 1), (''i03'', s, 2), (''i04'', s, 3),
            (''i05'', s, 4), (''i06'', s, 5), (''i07'', s, 6), (''i08'', s, 7), (''i09'', s, 8),
            (''i10'', s, 9)], imagesUploaded := 9\<rparr>)"
  by (simp add: exampleRaw_def exampleImages_def initialState_def)

text \<open>
  C4.  With 15 source images exactly the first 10 are attempted, the failure of the fourth
  is caught, and the listing receives the other nine in source order; but the
  \<^verbatim>\<open>catch\<close> only writes to the console: the error list of the sync log stays empty, where
  the claim has exactly one entry.  (The handlers of a failed listing, a failed dealer and a
  failed insertion all push an entry to \<^verbatim>\<open>syncLog.errors\<close>.)
\<close>

theorem image_failure_leaves_no_error_entry:
  "length (raw_images exampleRaw) = 15
   \<and> map fst (imageCalls (snd (scrapeListingDetails exampleImages exampleCandidate {} initialState)))
       = [''i01'', ''i02'', ''i03'', ''i04'', ''i05'', ''i06'', ''i07'', ''i08'', ''i09'', ''i10'']
   \<and> exampleImages ''i04'' listingSlug 3 = Threw ''Navigation timeout''
   \<and> (case fst (scrapeListingDetails exampleImages exampleCandidate {} initialState) of
        Inr (Scraped l) \<Rightarrow> Some (images l) | _ \<Rightarrow> None)
       = Some [''cdn/i01'', ''cdn/i02'', ''cdn/i03'', ''cdn/i05'', ''cdn/i06'', ''cdn/i07'',
               ''cdn/i08'', ''cdn/i09'', ''cdn/i10'']
   \<and> errors (snd (scrapeListingDetails exampleImages exampleCandidate {} initialState)) = []
   \<and> imagesUploaded (snd (scrapeListingDetails exampleImages exampleCandidate {} initialState)) = 9"
proof -
  have p: "cand_page exampleCandidate = Inr exampleRaw" by (simp add: exampleCandidate_def)
  have f: "candidateFingerprint exampleRaw \<notin> {}" by simp
  have n: "length (raw_images exampleRaw) = 15" by (simp add: exampleRaw_def)
  then have tk: "take (min (length (raw_images exampleRaw)) 10) (raw_images exampleRaw)
                  = take 10 (raw_images exampleRaw)" by simp
  obtain l where s: "scrapeListingDetails exampleImages exampleCandidate {} initialState
      = (Inr (Scraped l), snd (imageLoop exampleImages (slug l) 0 (take 10 (raw_images exampleRaw)) [] initialState))"
    and im: "images l = fst (imageLoop exampleImages (slug l) 0 (take 10 (raw_images exampleRaw)) [] initialState)"
    using scrapeListingDetails_scraped [OF p f, of exampleImages initialState] tk by auto
  have thrown: "exampleImages ''i04'' listingSlug 3 = Threw ''Navigation timeout''"
    by (simp add: exampleImages_def)
  from n thrown s im show ?thesis
    by (simp add: exampleImages_loop) (simp add: initialState_def)
qed

section \<open>The registration parser\<close>

lemma monthYearAt_Some_iff:
  "monthYearAt s = Some (mm, yyyy) \<longleftrightarrow>
     (\<exists>post. s = mm @ ''/'' @ yyyy @ post \<and> length mm = 2 \<and> length yyyy = 4
             \<and> list_all isDigit mm \<and> list_all isDigit yyyy)"
proof
  assume "monthYearAt s = Some (mm, yyyy)"
  then have mm: "mm = take 2 s" and yy: "yyyy = take 4 (drop 3 s)"
    and l2: "length (take 2 s) = 2" and sl: "take 1 (drop 2 s) = ''/''"
    and l4: "length (take 4 (drop 3 s)) = 4"
    and d: "list_all isDigit mm" "list_all isDigit yyyy"
    by (auto simp: monthYearAt_def Let_def split: if_splits)
  have "s = take 2 s @ drop 2 s" by simp
  also have "drop 2 s = take 1 (drop 2 s) @ drop 1 (drop 2 s)" by (simp only: append_take_drop_id)
  also have "drop 1 (drop 2 s) = drop 3 s" by (simp add: numeral_3_eq_3)
  also have "drop 3 s = take 4 (drop 3 s) @ drop 4 (drop 3 s)" by (simp only: append_take_drop_id)
  finally have "s = mm @ ''/'' @ yyyy @ drop 4 (drop 3 s)" using mm yy sl by simp
  then show "\<exists>post. s = mm @ ''/'' @ yyyy @ post \<and> length mm = 2 \<and> length yyyy = 4
             \<and> list_all isDigit mm \<and> list_all isDigit yyyy"
    using mm yy l2 l4 d by blast
next
  assume "\<exists>post. s = mm @ ''/'' @ yyyy @ post \<and> length mm = 2 \<and> length yyyy = 4
             \<and> list_all isDigit mm \<and> list_all isDigit yyyy"
  then obtain post where s: "s = mm @ ''/'' @ yyyy @ post" and l: "length mm = 2" "length yyyy = 4"
    and d: "list_all isDigit mm" "list_all isDigit yyyy" by blast
  then show "monthYearAt s = Some (mm, yyyy)"
    by (simp add: monthYearAt_def Let_def)
qed

lemma matchRegistration_skip:
  "\<forall>j<k. monthYearAt (drop j s) = None \<Longrightarrow> k \<le> length s
     \<Longrightarrow> matchRegistration s = matchRegistration (drop k s)"
proof (induction s arbitrary: k)
  case Nil
  then show ?case by simp
next
  case (Cons c cs)
  show ?case
  proof (cases k)
    case 0
    then show ?thesis by simp
  next
    case (Suc k')
    from Cons.prems(1) Suc have "monthYearAt (drop 0 (c # cs)) = None" by blast
    then have here: "monthYearAt (c # cs) = None" by simp
    have "\<forall>j<k'. monthYearAt (drop j cs) = None"
    proof (intro allI impI)
      fix j assume "j < k'"
      then have "Suc j < k" using Suc by simp
      with Cons.prems(1) have "monthYearAt (drop (Suc j) (c # cs)) = None" by blast
      then show "monthYearAt (drop j cs) = None" by simp
    qed
    moreover have "k' \<le> length cs" using Cons.prems(2) Suc by simp
    ultimately have "matchRegistration cs = matchRegistration (drop k' cs)" by (rule Cons.IH)
    with here Suc show ?thesis by simp
  qed
qed

lemma matchRegistration_here:
  "monthYearAt s = Some g \<Longrightarrow> matchRegistration s = Some g"
  by (cases s) (auto simp: monthYearAt_def Let_def)

lemma matchRegistration_leftmost:
  assumes "monthYearAt (drop k s) = Some g" and "\<forall>j<k. monthYearAt (drop j s) = None"
  shows "matchRegistration s = Some g"
proof -
  have "k \<le> length s"
  proof (rule ccontr)
    assume "\<not> k \<le> length s"
    then have "drop k s = []" by simp
    with assms(1) show False by (simp add: monthYearAt_def Let_def)
  qed
  with assms(2) have "matchRegistration s = matchRegistration (drop k s)"
    by (rule matchRegistration_skip)
  with assms(1) show ?thesis by (simp add: matchRegistration_here)
qed

lemma matchRegistration_none:
  assumes "\<forall>j<length s. monthYearAt (drop j s) = None"
  shows "matchRegistration s = None"
proof -
  from assms have "matchRegistration s = matchRegistration (drop (length s) s)"
    by (rule matchRegistration_skip) simp
  then show ?thesis by simp
qed

text \<open>
  C6, as amended.  \<^verbatim>\<open>null\<close> and the empty string give \<^verbatim>\<open>null\<close>.  For a non-empty
  text the regular expression is searched, not anchored: if two digits, a slash and four
  digits occur somewhere in it, the result is the four digits followed by the two digits of
  the leftmost occurrence (no check that they name a month); if they occur nowhere, the text
  is returned unchanged.  A text that is exactly of the shape MM/YYYY becomes YYYYMM.
\<close>

theorem parseRegistration_leftmost_occurrence:
  "parseRegistration None = None \<and> parseRegistration (Some []) = None
   \<and> (s \<noteq> [] \<longrightarrow> monthYearAt (drop k s) = Some (mm, yyyy)
        \<longrightarrow> (\<forall>j<k. monthYearAt (drop j s) = None)
        \<longrightarrow> parseRegistration (Some s) = Some (yyyy @ mm))
   \<and> (s \<noteq> [] \<longrightarrow> (\<forall>j<length s. monthYearAt (drop j s) = None)
        \<longrightarrow> parseRegistration (Some s) = Some s)
   \<and> (length mm = 2 \<longrightarrow> length yyyy = 4 \<longrightarrow> list_all isDigit mm \<longrightarrow> list_all isDigit yyyy
        \<longrightarrow> monthYearAt (mm @ ''/'' @ yyyy @ post) = Some (mm, yyyy)
            \<and> parseRegistration (Some (mm @ ''/'' @ yyyy)) = Some (yyyy @ mm))"
proof (intro conjI impI)
  show "parseRegistration None = None" "parseRegistration (Some []) = None"
    by (simp_all add: parseRegistration_def)
next
  assume "s \<noteq> []" "monthYearAt (drop k s) = Some (mm, yyyy)" "\<forall>j<k. monthYearAt (drop j s) = None"
  then show "parseRegistration (Some s) = Some (yyyy @ mm)"
    by (simp add: parseRegistration_def matchRegistration_leftmost)
next
  assume "s \<noteq> []" "\<forall>j<length s. monthYearAt (drop j s) = None"
  then show "parseRegistration (Some s) = Some s"
    by (simp add: parseRegistration_def matchRegistration_none)
next
  assume a: "length mm = 2" "length yyyy = 4" "list_all isDigit mm" "list_all isDigit yyyy"
  then show "monthYearAt (mm @ ''/'' @ yyyy @ post) = Some (mm, yyyy)"
    by (subst monthYearAt_Some_iff) blast
  from a have "monthYearAt (mm @ ''/'' @ yyyy @ []) = Some (mm, yyyy)"
    by (subst monthYearAt_Some_iff) blast
  then have "matchRegistration (mm @ ''/'' @ yyyy) = Some (mm, yyyy)"
    by (simp add: matchRegistration_here)
  moreover have "mm @ ''/'' @ yyyy \<noteq> []" by simp
  ultimately show "parseRegistration (Some (mm @ ''/'' @ yyyy)) = Some (yyyy @ mm)"
    by (simp add: parseRegistration_def)
qed

text \<open>
  C6, as stated, fails: the empty string is a non-null input without the shape MM/YYYY and
  is not returned unchanged, and a text that merely contains the shape (here a full date)
  is cut down to it.
\<close>

theorem parseRegistration_counterexample:
  "parseRegistration (Some []) = None
   \<and> parseRegistration (Some ''12/03/2021'') = Some ''202103''"
  by (simp add: registration_eval)

lemma parseRegistration_examples:
  "parseRegistration (Some ''03/2021'') = Some ''202103''"
  "parseRegistration (Some ''2021'') = Some ''2021''"
  by (simp_all add: registration_eval)

theorem parseRegistration_leftmost_occurrence_witness:
  "monthYearAt (drop 3 ''EZ 03/2021'') = Some (''03'', ''2021'')
   \<and> monthYearAt (drop 0 ''EZ 03/2021'') = None
   \<and> monthYearAt (drop 1 ''EZ 03/2021'') = None
   \<and> monthYearAt (drop 2 ''EZ 03/2021'') = None
   \<and> parseRegistration (Some ''EZ 03/2021'') = Some ''202103''
   \<and> parseRegistration (Some ''2021'') = Some ''2021''
   \<and> parseRegistration (Some ''03/2021'') = Some ''202103''"
proof -
  have here: "monthYearAt (drop 3 ''EZ 03/2021'') = Some (''03'', ''2021'')"
    by (simp add: registration_eval)
  have before: "\<forall>j<3. monthYearAt (drop j ''EZ 03/2021'') = None"
  proof (intro allI impI)
    fix j :: nat assume "j < 3"
    then consider "j = 0" | "j = 1" | "j = 2" by linarith
    then show "monthYearAt (drop j ''EZ 03/2021'') = None"
      by cases (simp_all add: registration_eval)
  qed
  have none: "\<forall>j<length ''2021''. monthYearAt (drop j ''2021'') = None"
  proof (intro allI impI)
    fix j :: nat assume "j < length ''2021''"
    then consider "j = 0" | "j = 1" | "j = 2" | "j = 3" by fastforce
    then show "monthYearAt (drop j ''2021'') = None"
      by cases (simp_all add: registration_eval)
  qed
  have shape: "length ''03'' = 2" "length ''2021'' = 4" "list_all isDigit ''03''" "list_all isDigit ''2021''"
    by (simp_all add: isDigit_def)
  note amended = parseRegistration_leftmost_occurrence
  have a: "parseRegistration (Some ''EZ 03/2021'') = Some ''202103''"
    using amended [of "''EZ 03/2021''" 3 "''03''" "''2021''"] here before by simp
  have b: "parseRegistration (Some ''2021'') = Some ''2021''"
    using amended [of "''2021''"] none by simp
  have c: "parseRegistration (Some ''03/2021'') = Some ''202103''"
    using amended [of _ _ "''03''" "''2021''"] shape by simp
  have first: "monthYearAt (drop 0 ''EZ 03/2021'') = None" "monthYearAt (drop 1 ''EZ 03/2021'') = None"
    "monthYearAt (drop 2 ''EZ 03/2021'') = None"
    by (simp_all add: registration_eval)
  from here first a b c show ?thesis by blast
qed

section \<open>The make/model parser\<close>

lemma split_str_nonempty: "split_str sep s \<noteq> []"
  by (induction s) (auto split: list.splits)

lemma join_split_str: "join_str [sep] (split_str sep s) = s"
proof (induction s)
  case Nil
  then show ?case by simp
next
  case (Cons c cs)
  obtain p ps where sp: "split_str sep cs = p # ps"
    using split_str_nonempty [of sep cs] by (cases "split_str sep cs") auto
  show ?case
  proof (cases "c = sep")
    case True
    with Cons sp show ?thesis by simp
  next
    case False
    with Cons sp show ?thesis by (cases ps) auto
  qed
qed

lemma split_str_first:
  "split_str sep s = takeWhile (\<lambda>c. c \<noteq> sep) s # tl (split_str sep s)"
proof (induction s)
  case Nil
  then show ?case by simp
next
  case (Cons c cs)
  obtain p ps where sp: "split_str sep cs = p # ps"
    using split_str_nonempty [of sep cs] by (cases "split_str sep cs") auto
  with Cons show ?case by auto
qed

lemma split_str_rest:
  "join_str [sep] (tl (split_str sep s)) = drop 1 (dropWhile (\<lambda>c. c \<noteq> sep) s)"
proof (induction s)
  case Nil
  then show ?case by simp
next
  case (Cons c cs)
  obtain p ps where sp: "split_str sep cs = p # ps"
    using split_str_nonempty [of sep cs] by (cases "split_str sep cs") auto
  show ?case
  proof (cases "c = sep")
    case True
    then show ?thesis by (simp add: join_split_str)
  next
    case False
    with Cons sp show ?thesis by simp
  qed
qed

lemma parseMakeModel_known:
  assumes "t \<noteq> []" and "i < length knownMakes" and "startsWith t (knownMakes ! i)"
    and "\<forall>j<i. \<not> startsWith t (knownMakes ! j)"
  shows "parseMakeModel (Some t)
           = (Some (knownMakes ! i), Some (trim (drop (length (knownMakes ! i)) t)))"
proof -
  have "find (startsWith t) knownMakes = Some (knownMakes ! i)"
    unfolding find_Some_iff using assms(2-4) by blast
  with assms(1) show ?thesis by (simp add: parseMakeModel_def)
qed

lemma parseMakeModel_fallback:
  assumes "t \<noteq> []" and "\<forall>mk \<in> set knownMakes. \<not> startsWith t mk"
  shows "parseMakeModel (Some t)
           = (Some (takeWhile (\<lambda>c. c \<noteq> CHR '' '') t),
              Some (drop 1 (dropWhile (\<lambda>c. c \<noteq> CHR '' '') t)))"
proof -
  have none: "find (startsWith t) knownMakes = None"
    unfolding find_None_iff using assms(2) by blast
  obtain p ps where sp: "split_str (CHR '' '') t = p # ps"
    using split_str_nonempty [of "CHR '' ''" t] by (cases "split_str (CHR '' '') t") auto
  have p: "p = takeWhile (\<lambda>c. c \<noteq> CHR '' '') t"
    using split_str_first [of "CHR '' ''" t] sp by simp
  have ps: "join_str '' '' ps = drop 1 (dropWhile (\<lambda>c. c \<noteq> CHR '' '') t)"
    using split_str_rest [of "CHR '' ''" t] sp by simp
  from assms(1) none sp p ps show ?thesis by (simp add: parseMakeModel_def)
qed

text \<open>
  C7, as amended.  \<^verbatim>\<open>null\<close> and the empty title give \<^verbatim>\<open>{make: null, model: null}\<close>.  For
  a non-empty title the first name of the fixed list that is a prefix of it becomes the make,
  and the model is the remainder with the white space at its two ends trimmed; if no name of
  the list is a prefix, the make is the text before the first space character and the model
  the text after that space (other white space does not delimit, and nothing is trimmed).
\<close>

theorem parseMakeModel_prefix_then_first_space:
  "parseMakeModel None = (None, None) \<and> parseMakeModel (Some []) = (None, None)
   \<and> (t \<noteq> [] \<longrightarrow> i < length knownMakes \<longrightarrow> startsWith t (knownMakes ! i)
        \<longrightarrow> (\<forall>j<i. \<not> startsWith t (knownMakes ! j))
        \<longrightarrow> parseMakeModel (Some t)
              = (Some (knownMakes ! i), Some (trim (drop (length (knownMakes ! i)) t))))
   \<and> (t \<noteq> [] \<longrightarrow> (\<forall>mk \<in> set knownMakes. \<not> startsWith t mk)
        \<longrightarrow> parseMakeModel (Some t)
              = (Some (takeWhile (\<lambda>c. c \<noteq> CHR '' '') t),
                 Some (drop 1 (dropWhile (\<lambda>c. c \<noteq> CHR '' '') t))))
   \<and> parseMakeModel (Some ''Mercedes-Benz C 200'') = (Some ''Mercedes-Benz'', Some ''C 200'')"
proof -
  have "parseMakeModel None = (None, None)" "parseMakeModel (Some []) = (None, None)"
    by (simp_all add: parseMakeModel_def)
  moreover have "parseMakeModel (Some ''Mercedes-Benz C 200'') = (Some ''Mercedes-Benz'', Some ''C 200'')"
    by (simp add: makeModel_eval)
  ultimately show ?thesis
    using parseMakeModel_known [of t i] parseMakeModel_fallback [of t] by blast
qed

text \<open>
  C7, as stated, fails: the empty title is split into neither a manufacturer name nor a first
  token, and a title whose first token ends at a tabulator is not split at all.
\<close>

theorem parseMakeModel_counterexample:
  "parseMakeModel (Some []) = (None, None)
   \<and> parseMakeModel (Some (''Dacia'' @ [CHR 0x09] @ ''Duster''))
       = (Some (''Dacia'' @ [CHR 0x09] @ ''Duster''), Some [])"
  by (simp add: makeModel_eval)

theorem parseMakeModel_prefix_then_first_space_witness:
  "''BMW 320d'' \<noteq> [] \<and> 1 < length knownMakes \<and> startsWith ''BMW 320d'' (knownMakes ! 1)
   \<and> \<not> startsWith ''BMW 320d'' (knownMakes ! 0)
   \<and> parseMakeModel (Some ''BMW 320d'') = (Some ''BMW'', Some ''320d'')
   \<and> find (startsWith ''Dacia Duster'') knownMakes = None
   \<and> parseMakeModel (Some ''Dacia Duster'') = (Some ''Dacia'', Some ''Duster'')"
proof -
  have h1: "''BMW 320d'' \<noteq> []" "1 < length knownMakes" "startsWith ''BMW 320d'' (knownMakes ! 1)"
    and h0: "\<not> startsWith ''BMW 320d'' (knownMakes ! 0)"
    by (simp_all add: knownMakes_def)
  have before: "\<forall>j<1. \<not> startsWith ''BMW 320d'' (knownMakes ! j)"
    using h0 by simp
  have none: "find (startsWith ''Dacia Duster'') knownMakes = None"
    by (simp add: knownMakes_def)
  then have nomake: "\<forall>mk \<in> set knownMakes. \<not> startsWith ''Dacia Duster'' mk"
    by (simp add: find_None_iff)
  have a: "parseMakeModel (Some ''BMW 320d'') = (Some ''BMW'', Some ''320d'')"
    using parseMakeModel_prefix_then_first_space [of "''BMW 320d''" 1] h1 before
    by (simp add: knownMakes_def trim_def isSpace_def)
  have b: "parseMakeModel (Some ''Dacia Duster'') = (Some ''Dacia'', Some ''Duster'')"
    using parseMakeModel_prefix_then_first_space [of "''Dacia Duster''"] nomake
    by simp
  from h1 h0 none a b show ?thesis by blast
qed

section \<open>The loops over candidates and dealers\<close>

lemma fetchedData_Cons:
  "fetchedData (c # cs) = (case cand_page c of Inl err \<Rightarrow> [] | Inr r \<Rightarrow> [r]) @ fetchedData cs"
  by (simp add: fetchedData_def)

lemma fetchedData_Nil: "fetchedData [] = []"
  by (simp add: fetchedData_def)

lemma listingLoop_Cons:
  "listingLoop img known (c # cs) listings st =
     (case cand_page c of
        Inl err \<Rightarrow> listingLoop img known cs listings (st\<lparr>errors := errors st @ [ScrapeError (cand_url c) err]\<rparr>)
      | Inr r \<Rightarrow>
          if candidateFingerprint r \<in> known
          then listingLoop img known cs listings (st\<lparr>listingsSkipped := listingsSkipped st + 1\<rparr>)
          else (case scrapeListingDetails img c known st of
                  (Inr (Scraped l), st1) \<Rightarrow> listingLoop img known cs (listings @ [l]) st1
                | other \<Rightarrow> ([], st)))"
proof (cases "cand_page c")
  case (Inl err)
  then show ?thesis by (simp add: scrapeListingDetails_error)
next
  case (Inr r)
  show ?thesis
  proof (cases "candidateFingerprint r \<in> known")
    case True
    with Inr show ?thesis by (simp add: scrapeListingDetails_skip)
  next
    case False
    from scrapeListingDetails_scraped [OF Inr False, of img st]
    obtain l st1 where "scrapeListingDetails img c known st = (Inr (Scraped l), st1)" by blast
    with Inr False show ?thesis by simp
  qed
qed

lemma listingLoop_fingerprints:
  "map fingerprint (fst (listingLoop img known cs acc st))
     = map fingerprint acc @ filter (\<lambda>f. f \<notin> known) (map candidateFingerprint (fetchedData cs))"
proof (induction cs arbitrary: acc st)
  case Nil
  then show ?case by (simp add: fetchedData_Nil)
next
  case (Cons c cs)
  show ?case
  proof (cases "cand_page c")
    case (Inl err)
    then show ?thesis by (simp add: listingLoop_Cons Cons.IH fetchedData_Cons del: listingLoop.simps)
  next
    case (Inr r)
    show ?thesis
    proof (cases "candidateFingerprint r \<in> known")
      case True
      with Inr show ?thesis
        by (simp add: listingLoop_Cons Cons.IH fetchedData_Cons del: listingLoop.simps)
    next
      case False
      from scrapeListingDetails_scraped [OF Inr False, of img st]
      obtain l st1 where "scrapeListingDetails img c known st = (Inr (Scraped l), st1)"
        and "fingerprint l = candidateFingerprint r" by blast
      with Inr False show ?thesis
        by (simp add: Cons.IH fetchedData_Cons)
    qed
  qed
qed

lemma scrapeListingDetails_state:
  assumes "scrapeListingDetails img c known st = (Inr (Scraped l), st')"
  shows "listingsSkipped st' = listingsSkipped st" "errors st' = errors st"
    "dealers st' = dealers st" "listingsFound st' = listingsFound st" "listingsNew st' = listingsNew st"
  using assms by (rule scrapeListingDetails_ScrapedD, simp add: imageLoop_result)+

lemma listingLoop_skipped:
  "listingsSkipped (snd (listingLoop img known cs acc st))
     = listingsSkipped st + length (filter (\<lambda>f. f \<in> known) (map candidateFingerprint (fetchedData cs)))"
proof (induction cs arbitrary: acc st)
  case Nil
  then show ?case by (simp add: fetchedData_Nil)
next
  case (Cons c cs)
  show ?case
  proof (cases "cand_page c")
    case (Inl err)
    then show ?thesis by (simp add: listingLoop_Cons Cons.IH fetchedData_Cons del: listingLoop.simps)
  next
    case (Inr r)
    show ?thesis
    proof (cases "candidateFingerprint r \<in> known")
      case True
      with Inr show ?thesis
        by (simp add: listingLoop_Cons Cons.IH fetchedData_Cons del: listingLoop.simps)
    next
      case False
      from scrapeListingDetails_scraped [OF Inr False, of img st]
      obtain l st1 where s: "scrapeListingDetails img c known st = (Inr (Scraped l), st1)" by blast
      with Inr False scrapeListingDetails_state(1) [OF s] show ?thesis
        by (simp add: Cons.IH fetchedData_Cons)
    qed
  qed
qed

lemma listingLoop_roster:
  "dealers (snd (listingLoop img known cs acc st)) = dealers st"
proof (induction cs arbitrary: acc st)
  case Nil
  then show ?case by simp
next
  case (Cons c cs)
  show ?case
  proof (cases "cand_page c")
    case (Inl err)
    then show ?thesis by (simp add: listingLoop_Cons Cons.IH del: listingLoop.simps)
  next
    case (Inr r)
    show ?thesis
    proof (cases "candidateFingerprint r \<in> known")
      case True
      with Inr show ?thesis by (simp add: listingLoop_Cons Cons.IH del: listingLoop.simps)
    next
      case False
      from scrapeListingDetails_scraped [OF Inr False, of img st]
      obtain l st1 where s: "scrapeListingDetails img c known st = (Inr (Scraped l), st1)" by blast
      with Inr False scrapeListingDetails_state(3) [OF s] show ?thesis
        by (simp add: Cons.IH)
    qed
  qed
qed

lemma length_fetchedData: "length (fetchedData cs) \<le> length cs"
  by (induction cs) (auto simp: fetchedData_Cons fetchedData_Nil split: sum.splits)

lemma listingLoop_length:
  "length (fst (listingLoop img known cs acc st)) \<le> length acc + length cs"
proof -
  have "length (map fingerprint (fst (listingLoop img known cs acc st)))
          \<le> length acc + length (map candidateFingerprint (fetchedData cs))"
    unfolding listingLoop_fingerprints by simp
  also have "\<dots> \<le> length acc + length cs" using length_fetchedData [of cs] by simp
  finally show ?thesis by simp
qed

lemma scrapeDealer_fingerprints:
  "map fingerprint (fst (scrapeDealer img d config known st)) = dealerNew config known d"
  by (cases "dealer_search d") (simp_all add: scrapeDealer_def dealerNew_def listingLoop_fingerprints)

lemma scrapeDealer_length:
  "length (fst (scrapeDealer img d config known st)) \<le> maxListingsPerDealer config"
proof (cases "dealer_search d")
  case (Inl err)
  then show ?thesis by (simp add: scrapeDealer_def)
next
  case (Inr urls)
  have "length (fst (listingLoop img known (take (maxListingsPerDealer config) urls) [] st))
          \<le> length ([] :: listing list) + length (take (maxListingsPerDealer config) urls)"
    by (rule listingLoop_length)
  with Inr show ?thesis by (simp add: scrapeDealer_def)
qed

lemma scrapeDealer_roster:
  "dealers (snd (scrapeDealer img d config known st)) = dealers st"
  by (cases "dealer_search d") (simp_all add: scrapeDealer_def listingLoop_roster)

lemma dealerLoop_length:
  "length acc \<le> maxTotalListings config
     \<Longrightarrow> length (fst (dealerLoop img config known ds acc st)) \<le> maxTotalListings config"
proof (induction ds arbitrary: acc st)
  case Nil
  then show ?case by simp
next
  case (Cons d ds)
  obtain ls st1 where sd: "scrapeDealer img d config known
      (st\<lparr>dealers := dealers st @ [(dealer_name d, dealer_url d)]\<rparr>) = (ls, st1)"
    by fastforce
  show ?case
  proof (cases "maxTotalListings config \<le> length (acc @ ls)")
    case True
    with sd show ?thesis by (simp add: Let_def)
  next
    case False
    then have "length (acc @ ls) \<le> maxTotalListings config" by simp
    from Cons.IH [OF this] sd False show ?thesis by (simp add: Let_def)
  qed
qed

lemma dealerLoop_fingerprints:
  "\<exists>n. map fingerprint (fst (dealerLoop img config known ds acc st))
         = take n (map fingerprint acc @ concat (map (dealerNew config known) ds))"
proof (induction ds arbitrary: acc st)
  case Nil
  have "map fingerprint acc = take (length acc) (map fingerprint acc @ [])" by simp
  then show ?case by (simp del: take_all) (metis length_map take_all order_refl)
next
  case (Cons d ds)
  obtain ls st1 where sd: "scrapeDealer img d config known
      (st\<lparr>dealers := dealers st @ [(dealer_name d, dealer_url d)]\<rparr>) = (ls, st1)"
    by fastforce
  have fp: "map fingerprint ls = dealerNew config known d"
    using scrapeDealer_fingerprints [of img d config known] sd by (metis fst_conv)
  show ?case
  proof (cases "maxTotalListings config \<le> length (acc @ ls)")
    case True
    let ?n = "maxTotalListings config"
    have "map fingerprint (take ?n (acc @ ls))
            = take ?n (map fingerprint acc @ dealerNew config known d)"
      using fp by (simp add: take_map [symmetric] del: take_append)
    also have "\<dots> = take ?n ((map fingerprint acc @ dealerNew config known d)
                               @ concat (map (dealerNew config known) ds))"
    proof -
      have "?n \<le> length (map fingerprint acc @ dealerNew config known d)"
        using True fp by (metis length_append length_map)
      then show ?thesis by simp
    qed
    finally show ?thesis using sd True by (auto simp add: Let_def)
  next
    case False
    from Cons.IH [of "acc @ ls" "st1\<lparr>listingsFound := listingsFound st1 + length ls\<rparr>"]
    obtain n where "map fingerprint (fst (dealerLoop img config known ds (acc @ ls)
                       (st1\<lparr>listingsFound := listingsFound st1 + length ls\<rparr>)))
         = take n (map fingerprint (acc @ ls) @ concat (map (dealerNew config known) ds))" by blast
    with sd False fp show ?thesis by (auto simp add: Let_def)
  qed
qed

section \<open>The known set during a run\<close>

text \<open>
  C5.  The set of known fingerprints is an argument of the run that no function returns or
  changes: every test uses the set loaded at the start.  So the listings a dealer yields are
  exactly the loaded candidates whose fingerprint is not in that set, in order and with
  repetitions, the skipped ones exactly those whose fingerprint is in it, and the run hands
  to the insertion an initial part of the dealers' listings; two candidates of one run with the same
  fingerprint, not known before, are both processed and neither is skipped.
\<close>

theorem known_set_is_a_snapshot:
  "map fingerprint (fst (listingLoop img known cs acc st))
     = map fingerprint acc @ filter (\<lambda>f. f \<notin> known) (map candidateFingerprint (fetchedData cs))
   \<and> listingsSkipped (snd (listingLoop img known cs acc st))
     = listingsSkipped st + length (filter (\<lambda>f. f \<in> known) (map candidateFingerprint (fetchedData cs)))
   \<and> map fingerprint (fst (scrapeDealer img d config known st)) = dealerNew config known d
   \<and> (\<exists>n. map fingerprint (fst (dealerLoop img config known ds [] st))
            = take n (concat (map (dealerNew config known) ds)))
   \<and> (main img ins config ds maxOverride known = Some (inserted, st2)
      \<longrightarrow> (\<exists>n. map fingerprint inserted = take n (concat (map (dealerNew config known) ds))))
   \<and> (cand_page c1 = Inr r1 \<and> cand_page c2 = Inr r2
        \<and> candidateFingerprint r1 = candidateFingerprint r2 \<and> candidateFingerprint r1 \<notin> known
      \<longrightarrow> map fingerprint (fst (listingLoop img known [c1, c2] [] st))
            = [candidateFingerprint r1, candidateFingerprint r1]
          \<and> listingsSkipped (snd (listingLoop img known [c1, c2] [] st)) = listingsSkipped st)"
proof -
  have loop: "map fingerprint (fst (listingLoop img known cs acc st))
     = map fingerprint acc @ filter (\<lambda>f. f \<notin> known) (map candidateFingerprint (fetchedData cs))"
    by (rule listingLoop_fingerprints)
  have skipped: "listingsSkipped (snd (listingLoop img known cs acc st))
     = listingsSkipped st + length (filter (\<lambda>f. f \<in> known) (map candidateFingerprint (fetchedData cs)))"
    by (rule listingLoop_skipped)
  have dealer: "map fingerprint (fst (scrapeDealer img d config known st)) = dealerNew config known d"
    by (rule scrapeDealer_fingerprints)
  have run: "\<exists>n. map fingerprint (fst (dealerLoop img config known ds [] st))
            = take n (concat (map (dealerNew config known) ds))"
    using dealerLoop_fingerprints [of img config known ds "[]" st] by simp
  have twice: "cand_page c1 = Inr r1 \<and> cand_page c2 = Inr r2
        \<and> candidateFingerprint r1 = candidateFingerprint r2 \<and> candidateFingerprint r1 \<notin> known
      \<longrightarrow> map fingerprint (fst (listingLoop img known [c1, c2] [] st))
            = [candidateFingerprint r1, candidateFingerprint r1]
          \<and> listingsSkipped (snd (listingLoop img known [c1, c2] [] st)) = listingsSkipped st"
    by (simp add: listingLoop_fingerprints listingLoop_skipped fetchedData_def del: listingLoop.simps)
  have whole: "main img ins config ds maxOverride known = Some (inserted, st2)
      \<longrightarrow> (\<exists>n. map fingerprint inserted = take n (concat (map (dealerNew config known) ds)))"
  proof
    assume m: "main img ins config ds maxOverride known = Some (inserted, st2)"
    let ?config = "if 0 < maxOverride then config\<lparr>maxTotalListings := maxOverride\<rparr> else config"
    from m have en: "enabled config" by (simp add: main_def split: if_splits)
    obtain al sa where dl: "dealerLoop img ?config known ds [] initialState = (al, sa)" by fastforce
    with m en have "inserted = al" by (simp add: main_def Let_def)
    moreover have "dealerNew ?config known = dealerNew config known"
      by (rule ext) (simp add: dealerNew_def split: sum.splits)
    moreover obtain n where "map fingerprint (fst (dealerLoop img ?config known ds [] initialState))
            = take n (concat (map (dealerNew ?config known) ds))"
      using dealerLoop_fingerprints [of img ?config known ds "[]" initialState] by auto
    ultimately show "\<exists>n. map fingerprint inserted = take n (concat (map (dealerNew config known) ds))"
      using dl by auto
  qed
  from loop skipped dealer run whole twice show ?thesis by blast
qed

lemma candidateFingerprint_twin:
  "candidateFingerprint (exampleRaw\<lparr>raw_price := Some ''23500'', raw_color := ''Blau'',
      raw_images := [''j01'']\<rparr>) = candidateFingerprint exampleRaw"
  by (simp add: candidateFingerprint_def)

theorem known_set_is_a_snapshot_witness:
  "map fingerprint (fst (listingLoop exampleImages {''0090ddf655acfb4e011f1292984786a4''}
                           [exampleCandidate, exampleTwin] [] initialState))
     = [''340c3f097964ef1b8be801ff7633eeda'', ''340c3f097964ef1b8be801ff7633eeda'']
   \<and> listingsSkipped (snd (listingLoop exampleImages {''0090ddf655acfb4e011f1292984786a4''}
                           [exampleCandidate, exampleTwin] [] initialState)) = 0"
proof -
  let ?twinRaw = "exampleRaw\<lparr>raw_price := Some ''23500'', raw_color := ''Blau'', raw_images := [''j01'']\<rparr>"
  have p1: "cand_page exampleCandidate = Inr exampleRaw" by (simp add: exampleCandidate_def)
  have p2: "cand_page exampleTwin = Inr ?twinRaw" by (simp add: exampleTwin_def)
  have same: "candidateFingerprint exampleRaw = candidateFingerprint ?twinRaw"
    by (simp add: candidateFingerprint_twin)
  have new: "candidateFingerprint exampleRaw \<notin> {''0090ddf655acfb4e011f1292984786a4''}"
    by (simp add: candidateFingerprint_exampleRaw)
  note snapshot = known_set_is_a_snapshot
    [where img = exampleImages and known = "{''0090ddf655acfb4e011f1292984786a4''}"
       and cs = "[]" and acc = "[]" and st = initialState and d = exampleDealer
       and config = exampleSettings and ds = "[]" and ?c1.0 = exampleCandidate
       and ?r1.0 = exampleRaw and ?c2.0 = exampleTwin and ?r2.0 = ?twinRaw
       and ins = "\<lambda>l. None" and maxOverride = 0 and inserted = "[]" and ?st2.0 = initialState]
  from snapshot p1 p2 same new
  have "map fingerprint (fst (listingLoop exampleImages {''0090ddf655acfb4e011f1292984786a4''}
                           [exampleCandidate, exampleTwin] [] initialState))
          = [candidateFingerprint exampleRaw, candidateFingerprint exampleRaw]
      \<and> listingsSkipped (snd (listingLoop exampleImages {''0090ddf655acfb4e011f1292984786a4''}
                           [exampleCandidate, exampleTwin] [] initialState))
          = listingsSkipped initialState"
    by blast
  then show ?thesis
    by (simp add: candidateFingerprint_exampleRaw initialState_def del: listingLoop.simps)
qed

section \<open>The caps\<close>

text \<open>
  C8.  A dealer's loop runs over the first \<^verbatim>\<open>maxListingsPerDealer\<close> candidates only.  When
  the listings collected so far reach \<^verbatim>\<open>maxTotalListings\<close> after a dealer, the loop over
  the dealers ends there whatever dealers remain: the roster holds no later dealer, the
  listings of the dealer just scraped are kept up to the cap, and the listings handed to
  the insertion never exceed the cap (the overriding one, when it is set).
\<close>

theorem caps_are_enforced:
  "length (fst (dealerLoop img config known ds [] st)) \<le> maxTotalListings config
   \<and> length (fst (scrapeDealer img d config known st)) \<le> maxListingsPerDealer config
   \<and> (dealer_search d = Inr listingUrls
      \<longrightarrow> scrapeDealer img d config known st
            = listingLoop img known (take (maxListingsPerDealer config) listingUrls) [] st)
   \<and> (scrapeDealer img d config known (st\<lparr>dealers := dealers st @ [(dealer_name d, dealer_url d)]\<rparr>)
          = (listings, st1)
        \<and> maxTotalListings config \<le> length (allListings @ listings)
      \<longrightarrow> dealerLoop img config known (d # ds) allListings st
            = (take (maxTotalListings config) (allListings @ listings),
               st1\<lparr>listingsFound := listingsFound st1 + length listings\<rparr>)
          \<and> dealers (snd (dealerLoop img config known (d # ds) allListings st))
            = dealers st @ [(dealer_name d, dealer_url d)]
          \<and> (length allListings < maxTotalListings config
              \<longrightarrow> fst (dealerLoop img config known (d # ds) allListings st)
                    = allListings @ take (maxTotalListings config - length allListings) listings))
   \<and> (main img ins config ds maxOverride known = Some (inserted, st2)
      \<longrightarrow> length inserted \<le> (if 0 < maxOverride then maxOverride else maxTotalListings config))"
proof (intro conjI impI)
  show "length (fst (dealerLoop img config known ds [] st)) \<le> maxTotalListings config"
    by (rule dealerLoop_length) simp
  show "length (fst (scrapeDealer img d config known st)) \<le> maxListingsPerDealer config"
    by (rule scrapeDealer_length)
next
  assume "dealer_search d = Inr listingUrls"
  then show "scrapeDealer img d config known st
            = listingLoop img known (take (maxListingsPerDealer config) listingUrls) [] st"
    by (simp add: scrapeDealer_def)
next
  assume a: "scrapeDealer img d config known (st\<lparr>dealers := dealers st @ [(dealer_name d, dealer_url d)]\<rparr>)
          = (listings, st1)
        \<and> maxTotalListings config \<le> length (allListings @ listings)"
  then show halt: "dealerLoop img config known (d # ds) allListings st
            = (take (maxTotalListings config) (allListings @ listings),
               st1\<lparr>listingsFound := listingsFound st1 + length listings\<rparr>)"
    by (simp add: Let_def)
  have "dealers st1 = dealers (st\<lparr>dealers := dealers st @ [(dealer_name d, dealer_url d)]\<rparr>)"
    using scrapeDealer_roster [of img d config known
            "st\<lparr>dealers := dealers st @ [(dealer_name d, dealer_url d)]\<rparr>"] a
    by simp
  with halt show "dealers (snd (dealerLoop img config known (d # ds) allListings st))
            = dealers st @ [(dealer_name d, dealer_url d)]"
    by simp
  assume "length allListings < maxTotalListings config"
  with halt show "fst (dealerLoop img config known (d # ds) allListings st)
                    = allListings @ take (maxTotalListings config - length allListings) listings"
    by simp
next
  assume m: "main img ins config ds maxOverride known = Some (inserted, st2)"
  let ?config = "if 0 < maxOverride then config\<lparr>maxTotalListings := maxOverride\<rparr> else config"
  from m have en: "enabled config" by (simp add: main_def split: if_splits)
  obtain al sa where dl: "dealerLoop img ?config known ds [] initialState = (al, sa)" by fastforce
  with m en have "inserted = al" by (simp add: main_def Let_def)
  moreover have "length (fst (dealerLoop img ?config known ds [] initialState)) \<le> maxTotalListings ?config"
    by (rule dealerLoop_length) simp
  ultimately show "length inserted \<le> (if 0 < maxOverride then maxOverride else maxTotalListings config)"
    using dl by (simp split: if_splits)
qed


lemma length_dealerNew_example: "length (dealerNew exampleSettings {} exampleDealer) = 2"
  by (simp add: dealerNew_def exampleDealer_def exampleSettings_def fetchedData_def
        exampleCandidate_def exampleTwin_def)

theorem caps_are_enforced_witness:
  "maxListingsPerDealer exampleSettings = 2 \<and> maxTotalListings exampleSettings = 3
   \<and> length (fst (dealerLoop exampleImages exampleSettings {}
                      [exampleDealer, exampleDealer, exampleDealer] [] initialState)) = 3
   \<and> dealers (snd (dealerLoop exampleImages exampleSettings {}
                      [exampleDealer, exampleDealer, exampleDealer] [] initialState))
       = [(''Autohaus'', ''https://home.mobile.de/AUTOHAUS''),
          (''Autohaus'', ''https://home.mobile.de/AUTOHAUS'')]
   \<and> (case main exampleImages (\<lambda>l. None) exampleSettings
               [exampleDealer, exampleDealer, exampleDealer] 0 {} of
         Some (inserted, st) \<Rightarrow> Some (length inserted) | None \<Rightarrow> None) = Some 3"
proof -
  let ?e = "(dealer_name exampleDealer, dealer_url exampleDealer)"
  let ?img = exampleImages and ?cfg = exampleSettings and ?d = exampleDealer
  have caps: "maxListingsPerDealer ?cfg = 2" "maxTotalListings ?cfg = 3" "enabled ?cfg"
    by (simp_all add: exampleSettings_def)
  have len: "length (fst (scrapeDealer ?img ?d ?cfg {} st)) = 2" for st
  proof -
    have "length (map fingerprint (fst (scrapeDealer ?img ?d ?cfg {} st))) = 2"
      by (simp only: scrapeDealer_fingerprints length_dealerNew_example)
    then show ?thesis by simp
  qed
  obtain ls1 s1 where sd1: "scrapeDealer ?img ?d ?cfg {}
      (initialState\<lparr>dealers := dealers initialState @ [?e]\<rparr>) = (ls1, s1)" by fastforce
  have len1: "length ls1 = 2"
    using len [of "initialState\<lparr>dealers := dealers initialState @ [?e]\<rparr>"] sd1 by simp
  have roster1: "dealers s1 = [?e]"
    using scrapeDealer_roster [of ?img ?d ?cfg "{}" "initialState\<lparr>dealers := dealers initialState @ [?e]\<rparr>"]
      sd1 by (simp add: initialState_def)
  let ?s1 = "s1\<lparr>listingsFound := listingsFound s1 + length ls1\<rparr>"
  have step1: "dealerLoop ?img ?cfg {} [?d, ?d, ?d] [] initialState = dealerLoop ?img ?cfg {} [?d, ?d] ls1 ?s1"
    using sd1 len1 caps by (simp add: Let_def)
  obtain ls2 s2 where sd2: "scrapeDealer ?img ?d ?cfg {} (?s1\<lparr>dealers := dealers ?s1 @ [?e]\<rparr>) = (ls2, s2)"
    by fastforce
  have len2: "length ls2 = 2"
    using len [of "?s1\<lparr>dealers := dealers ?s1 @ [?e]\<rparr>"] sd2 by simp
  have reached: "maxTotalListings ?cfg \<le> length (ls1 @ ls2)" using len1 len2 caps by simp
  have room: "length ls1 < maxTotalListings ?cfg" using len1 caps by simp
  note enforced = caps_are_enforced
    [where img = ?img and config = ?cfg and known = "{}" and d = ?d and ds = "[?d]"
       and allListings = ls1 and listings = ls2 and st = ?s1 and ?st1.0 = s2
       and listingUrls = "[]" and ins = "\<lambda>l. None" and maxOverride = 0 and inserted = "[]"
       and ?st2.0 = initialState]
  from enforced sd2 reached room
  have halt: "dealers (snd (dealerLoop ?img ?cfg {} [?d, ?d] ls1 ?s1)) = dealers ?s1 @ [?e]"
    and kept: "fst (dealerLoop ?img ?cfg {} [?d, ?d] ls1 ?s1)
                 = ls1 @ take (maxTotalListings ?cfg - length ls1) ls2"
    by blast+
  have n: "length (fst (dealerLoop ?img ?cfg {} [?d, ?d, ?d] [] initialState)) = 3"
    using step1 kept len1 len2 caps by simp
  have r: "dealers (snd (dealerLoop ?img ?cfg {} [?d, ?d, ?d] [] initialState)) = [?e, ?e]"
    using step1 halt roster1 by simp
  have m: "(case main ?img (\<lambda>l. None) ?cfg [?d, ?d, ?d] 0 {} of
         Some (inserted, st) \<Rightarrow> Some (length inserted) | None \<Rightarrow> None) = Some 3"
  proof -
    obtain al sa where dl: "dealerLoop ?img ?cfg {} [?d, ?d, ?d] [] initialState = (al, sa)"
      by fastforce
    with n have "length al = 3" by (simp del: dealerLoop.simps)
    with dl caps show ?thesis by (simp add: main_def del: dealerLoop.simps)
  qed
  from caps n r m show ?thesis by (simp add: exampleDealer_def)
qed


end
